theory Spec2Isabelle
  imports Complex_Main "HOL-Library.Word"
begin

section \<open>The ALSA audio renderer of RPiPlay (renderers/audio\_renderer\_alsa.c)\<close>

text \<open>
  The module decodes AAC frames with fdk-aac and plays them through ALSA. Both libraries
  are outside the repository, so the embedding keeps them abstract:
  \<^item> every call the module makes to the outside (libc allocation, fdk-aac, ALSA, the
    logger) is appended, with its arguments, to a chronological \<open>trace\<close>;
  \<^item> what a call returns is read from an \<open>environment\<close>, a record of functions of the
    history up to and including that call. Since the history grows with every call, any
    sequence of results a device could produce is some environment, and a theorem for
    all environments covers every behaviour of the libraries;
  \<^item> the handles a library hands out, and malloc'ed blocks, are counted in \<open>live\<close>
    until they are closed or freed;
  \<^item> a library call is assumed to return, also when it is given a NULL handle (the
    environment chooses its result); only this module's own dereference of an invalid
    renderer pointer, and its own undefined arithmetic, are faults.
\<close>

subsection \<open>C types\<close>

type_synonym addr = nat
type_synonym uchar = "8 word"

datatype fault =
    InvalidPointer        \<comment> \<open>dereference of a NULL or freed structure\<close>
  | UndefinedArithmetic   \<comment> \<open>float-to-long conversion out of range, or signed overflow\<close>

datatype logger_level = LOGGER_ERR | LOGGER_INFO | LOGGER_DEBUG

datatype log_arg = ArgStr string | ArgInt int | ArgStrerror int

datatype TRANSPORT_TYPE = TT_MP4_RAW | TT_MP4_ADIF | TT_MP4_ADTS

datatype snd_pcm_stream_t = SND_PCM_STREAM_PLAYBACK | SND_PCM_STREAM_CAPTURE

datatype snd_pcm_format_t =
  SND_PCM_FORMAT_S8 | SND_PCM_FORMAT_U8 | SND_PCM_FORMAT_S16_LE | SND_PCM_FORMAT_S32_LE

datatype snd_pcm_access_t = SND_PCM_ACCESS_RW_INTERLEAVED | SND_PCM_ACCESS_RW_NONINTERLEAVED

datatype snd_ctl_elem_iface_t =
  SND_CTL_ELEM_IFACE_CARD | SND_CTL_ELEM_IFACE_HWDEP | SND_CTL_ELEM_IFACE_MIXER

datatype audio_renderer_type_t = AUDIO_RENDERER_DUMMY | AUDIO_RENDERER_RPI

datatype video_renderer_type_t = VIDEO_RENDERER_DUMMY | VIDEO_RENDERER_RPI

datatype funcs_table = Audio_renderer_alsa_funcs

text \<open>A C \<open>float\<close>: the finite values are reals, beside the infinities and NaN.\<close>

datatype c_float = Finite real | PlusInfinity | MinusInfinity | NaN

record audio_renderer_config_t =
  alsaString :: "string option"

record video_renderer_t =
  video_type :: video_renderer_type_t

record CStreamInfo =
  channelConfig :: int
  aacSampleRate :: int
  aacSamplesPerFrame :: int
  aot :: int
  bitRate :: int

record snd_ctl_elem_id_t =
  numid :: nat
  iface :: snd_ctl_elem_iface_t

record snd_ctl_elem_value_t =
  value_id :: "snd_ctl_elem_id_t option"
  value_integer :: "nat \<Rightarrow> int"

record snd_pcm_params =
  pcm_format :: snd_pcm_format_t
  pcm_access :: snd_pcm_access_t
  pcm_channels :: nat
  pcm_rate :: nat
  pcm_soft_resample :: int
  pcm_latency :: nat

text \<open>
  \<open>audio_renderer_alsa_t\<close>, with the three fields of its \<open>base\<close> written
  \<open>base_logger\<close>, \<open>base_funcs\<close>, \<open>base_type\<close>. A pointer field is an option:
  \<open>None\<close> is NULL, which is what \<open>calloc\<close> leaves in every field.
\<close>

record audio_renderer_alsa_t =
  base_logger :: "nat option"
  base_funcs :: "funcs_table option"
  base_type :: "audio_renderer_type_t option"
  config :: "audio_renderer_config_t option"
  audio_decoder :: "nat option"
  audio_renderer :: "nat option"
  ctl :: "nat option"
  ctl_elem_id :: "nat option"

subsection \<open>Calls to the outside, the world and the environment\<close>

datatype event =
    Call_logger_log "nat option" logger_level log_arg "log_arg list"
  | Call_calloc
  | Call_malloc int
  | Call_free "addr option"
  | Call_aacDecoder_Open TRANSPORT_TYPE nat
  | Call_aacDecoder_ConfigRaw "nat option" "uchar list" nat
  | Call_aacDecoder_GetStreamInfo "nat option"
  | Call_aacDecoder_Close "nat option"
  | Call_aacDecoder_Fill "nat option" "uchar list" int int
  | Call_aacDecoder_DecodeFrame "nat option" "addr option" int int
  | Call_snd_pcm_open string snd_pcm_stream_t int
  | Call_snd_pcm_set_params "nat option" snd_pcm_params
  | Call_snd_pcm_writei "nat option" "addr option" int
  | Call_snd_pcm_recover "nat option" int int
  | Call_snd_pcm_drain "nat option"
  | Call_snd_pcm_close "nat option"
  | Call_snd_ctl_open string int
  | Call_snd_ctl_close "nat option"
  | Call_snd_ctl_elem_id_malloc
  | Call_snd_ctl_elem_list "nat option"
  | Call_snd_ctl_elem_list_alloc_space nat
  | Call_snd_ctl_elem_list_free_space "addr option"
  | Call_snd_ctl_convert_from_dB "nat option" "snd_ctl_elem_id_t option" int int
  | Call_snd_ctl_elem_write "nat option" snd_ctl_elem_value_t

datatype resource =
    Mem addr            \<comment> \<open>a block from calloc, malloc or a library allocator\<close>
  | AacDecoder nat
  | PcmHandle nat
  | CtlHandle nat

text \<open>
  The environment. \<open>ret\<close> is the integer a call returns (an ALSA error code or frame
  count, an \<open>AAC_DECODER_ERROR\<close>); \<open>non_null\<close> tells whether a call that returns a
  pointer returns one; \<open>elem_list\<close> is the control element list (name and numeric id of
  each element) the device reports; \<open>raw_out\<close> is what \<open>snd_ctl_convert_from_dB\<close>
  leaves in \<open>raw\<close> (on failure: whatever the uninitialised variable holds);
  \<open>long_bits\<close> is the width of the platform's \<open>long\<close>.
\<close>

record environment =
  long_bits :: nat
  ret :: "event list \<Rightarrow> int"
  non_null :: "event list \<Rightarrow> bool"
  stream_info :: "event list \<Rightarrow> CStreamInfo"
  elem_list :: "event list \<Rightarrow> (string \<times> nat) list"
  raw_out :: "event list \<Rightarrow> int"

record world =
  heap :: "addr \<rightharpoonup> audio_renderer_alsa_t"   \<comment> \<open>the renderer structures\<close>
  elem_ids :: "addr \<rightharpoonup> snd_ctl_elem_id_t"    \<comment> \<open>the control element ids\<close>
  pcm_setup :: "nat \<rightharpoonup> snd_pcm_params"       \<comment> \<open>parameters of the configured PCMs\<close>
  live :: "resource list"
  next_id :: nat                               \<comment> \<open>the next fresh address or handle\<close>
  mHasCtrlVolume :: bool                       \<comment> \<open>the module's static flag\<close>
  trace :: "event list"

text \<open>
  Addresses and handles are taken from the counter \<open>next_id\<close> and never used twice.
  A statement that needs the renderer structure to be distinct from a block allocated
  later assumes that its address is below the counter; a successful construction
  establishes that.
\<close>

definition call :: "event \<Rightarrow> world \<Rightarrow> world" where
  "call e w = w\<lparr>trace := trace w @ [e]\<rparr>"

definition allocate :: "resource \<Rightarrow> world \<Rightarrow> world" where
  "allocate x w = w\<lparr>live := x # live w, next_id := next_id w + 1\<rparr>"

definition release :: "resource \<Rightarrow> world \<Rightarrow> world" where
  "release x w = w\<lparr>live := remove1 x (live w)\<rparr>"

definition AAC_DEC_OK :: int where
  "AAC_DEC_OK = 0"

text \<open>
  Modelled from the spec: \<open>logger_log\<close> (logger.c is not among the sources), the
  diagnostic sink that accepts a severity and a formatted message. It is recorded as a
  call and has no other effect.
\<close>

definition logger_log :: "nat option \<Rightarrow> logger_level \<Rightarrow> log_arg \<Rightarrow> log_arg list \<Rightarrow> world \<Rightarrow> world" where
  "logger_log lg lvl fmt args w = call (Call_logger_log lg lvl fmt args) w"

text \<open>
  The macro \<open>CHK_ALSA_ERRNO(err, msg, r)\<close> expands to
  \<open>if ( (err) < 0 ) logger_log(r, LOGGER_ERR, "%s: %s", msg, snd_strerror(err))\<close>: its
  first argument is pasted twice. Every use in the module passes a library call as
  \<open>err\<close>, so the call is made once for the test and, when that result is negative, a
  second time as the argument of \<open>snd_strerror\<close>; the message carries the result of the
  second call. The argument is therefore modelled as the call itself: a function of the
  world that gives the value returned, what the call leaves in its output argument (a
  handle, a pointer, a list, a converted value; \<open>()\<close> for a call that has none), and the
  world after the call. The macro gives back the output argument as the last call left
  it.
\<close>

definition CHK_ALSA_ERRNO ::
  "(world \<Rightarrow> int \<times> 'out \<times> world) \<Rightarrow> string \<Rightarrow> nat option \<Rightarrow> world \<Rightarrow> 'out \<times> world" where
  "CHK_ALSA_ERRNO err msg r w =
     (let (e1, out1, w1) = err w in
      if e1 < 0 then
        (let (e2, out2, w2) = err w1 in
         (out2,
          logger_log r LOGGER_ERR (ArgStr ''%s: %s'') [ArgStr msg, ArgStrerror e2] w2))
      else (out1, w1))"

subsection \<open>libc: allocation\<close>

text \<open>
  \<open>calloc(1, sizeof(audio_renderer_alsa_t))\<close>: a new structure with every field zero,
  or NULL.
\<close>

definition zero_renderer :: audio_renderer_alsa_t where
  "zero_renderer =
     \<lparr>base_logger = None, base_funcs = None, base_type = None, config = None,
      audio_decoder = None, audio_renderer = None, ctl = None, ctl_elem_id = None\<rparr>"

definition calloc_renderer :: "environment \<Rightarrow> world \<Rightarrow> addr option \<times> world" where
  "calloc_renderer E w =
     (let w1 = call Call_calloc w in
      if non_null E (trace w1) then
        (let a = next_id w1
         in (Some a, allocate (Mem a) (w1\<lparr>heap := (heap w1)(a \<mapsto> zero_renderer)\<rparr>)))
      else (None, w1))"

definition malloc :: "environment \<Rightarrow> int \<Rightarrow> world \<Rightarrow> addr option \<times> world" where
  "malloc E n w =
     (let w1 = call (Call_malloc n) w in
      if non_null E (trace w1) then (Some (next_id w1), allocate (Mem (next_id w1)) w1)
      else (None, w1))"

definition free :: "addr option \<Rightarrow> world \<Rightarrow> world" where
  "free p w =
     (let w1 = call (Call_free p) w in
      case p of
        None \<Rightarrow> w1
      | Some a \<Rightarrow> release (Mem a) (w1\<lparr>heap := (heap w1)(a := None)\<rparr>))"

subsection \<open>fdk-aac, as far as the module uses it\<close>

text \<open>
  Each library function records its call, reads its result from the environment and
  keeps the account of live handles. A decoder handle is live from a successful
  \<open>aacDecoder_Open\<close> to \<open>aacDecoder_Close\<close>.
\<close>

definition aacDecoder_Open :: "environment \<Rightarrow> TRANSPORT_TYPE \<Rightarrow> nat \<Rightarrow> world \<Rightarrow> nat option \<times> world" where
  "aacDecoder_Open E tt nrOfLayers w =
     (let w1 = call (Call_aacDecoder_Open tt nrOfLayers) w in
      if non_null E (trace w1) then (Some (next_id w1), allocate (AacDecoder (next_id w1)) w1)
      else (None, w1))"

definition aacDecoder_ConfigRaw ::
  "environment \<Rightarrow> nat option \<Rightarrow> uchar list \<Rightarrow> nat \<Rightarrow> world \<Rightarrow> int \<times> world" where
  "aacDecoder_ConfigRaw E self conf len w =
     (let w1 = call (Call_aacDecoder_ConfigRaw self conf len) w in (ret E (trace w1), w1))"

definition aacDecoder_GetStreamInfo ::
  "environment \<Rightarrow> nat option \<Rightarrow> world \<Rightarrow> CStreamInfo option \<times> world" where
  "aacDecoder_GetStreamInfo E self w =
     (let w1 = call (Call_aacDecoder_GetStreamInfo self) w in
      (if non_null E (trace w1) then Some (stream_info E (trace w1)) else None, w1))"

definition aacDecoder_Close :: "nat option \<Rightarrow> world \<Rightarrow> world" where
  "aacDecoder_Close self w =
     (let w1 = call (Call_aacDecoder_Close self) w in
      case self of None \<Rightarrow> w1 | Some d \<Rightarrow> release (AacDecoder d) w1)"

definition aacDecoder_Fill ::
  "environment \<Rightarrow> nat option \<Rightarrow> uchar list \<Rightarrow> int \<Rightarrow> int \<Rightarrow> world \<Rightarrow> int \<times> world" where
  "aacDecoder_Fill E self pBuffer bufferSize bytesValid w =
     (let w1 = call (Call_aacDecoder_Fill self pBuffer bufferSize bytesValid) w in
      (ret E (trace w1), w1))"

definition aacDecoder_DecodeFrame ::
  "environment \<Rightarrow> nat option \<Rightarrow> addr option \<Rightarrow> int \<Rightarrow> int \<Rightarrow> world \<Rightarrow> int \<times> world" where
  "aacDecoder_DecodeFrame E self pTimeData timeDataSize flags w =
     (let w1 = call (Call_aacDecoder_DecodeFrame self pTimeData timeDataSize flags) w in
      (ret E (trace w1), w1))"

subsection \<open>ALSA, as far as the module uses it\<close>

text \<open>
  A PCM or control handle is live from a successful open (a non-negative result) to its
  close. \<open>snd_pcm_set_params\<close> records the parameters of a PCM when it succeeds, and
  \<open>snd_pcm_bytes_to_frames\<close> divides by the size of one frame (the sample width
  times the number of channels), as ALSA defines it; for a PCM that is not set up it
  answers \<open>-EIO\<close>.
\<close>

definition snd_pcm_open ::
  "environment \<Rightarrow> string \<Rightarrow> snd_pcm_stream_t \<Rightarrow> int \<Rightarrow> world \<Rightarrow> int \<times> nat option \<times> world" where
  "snd_pcm_open E name stream mode w =
     (let w1 = call (Call_snd_pcm_open name stream mode) w; err = ret E (trace w1) in
      if err < 0 then (err, None, w1)
      else (err, Some (next_id w1), allocate (PcmHandle (next_id w1)) w1))"

definition snd_pcm_set_params ::
  "environment \<Rightarrow> nat option \<Rightarrow> snd_pcm_params \<Rightarrow> world \<Rightarrow> int \<times> world" where
  "snd_pcm_set_params E pcm params w =
     (let w1 = call (Call_snd_pcm_set_params pcm params) w; err = ret E (trace w1) in
      case pcm of
        None \<Rightarrow> (err, w1)
      | Some p \<Rightarrow>
          if err < 0 then (err, w1)
          else (err, w1\<lparr>pcm_setup := (pcm_setup w1)(p \<mapsto> params)\<rparr>))"

fun snd_pcm_format_physical_width :: "snd_pcm_format_t \<Rightarrow> nat" where
  "snd_pcm_format_physical_width SND_PCM_FORMAT_S8 = 8"
| "snd_pcm_format_physical_width SND_PCM_FORMAT_U8 = 8"
| "snd_pcm_format_physical_width SND_PCM_FORMAT_S16_LE = 16"
| "snd_pcm_format_physical_width SND_PCM_FORMAT_S32_LE = 32"

definition frame_bits :: "snd_pcm_params \<Rightarrow> nat" where
  "frame_bits ps = snd_pcm_format_physical_width (pcm_format ps) * pcm_channels ps"

definition snd_pcm_bytes_to_frames :: "world \<Rightarrow> nat option \<Rightarrow> int \<Rightarrow> int" where
  "snd_pcm_bytes_to_frames w pcm bytes =
     (case (case pcm of None \<Rightarrow> None | Some p \<Rightarrow> pcm_setup w p) of
        None \<Rightarrow> - 5
      | Some ps \<Rightarrow> bytes * 8 div int (frame_bits ps))"

definition snd_pcm_writei ::
  "environment \<Rightarrow> nat option \<Rightarrow> addr option \<Rightarrow> int \<Rightarrow> world \<Rightarrow> int \<times> world" where
  "snd_pcm_writei E pcm buffer frames w =
     (let w1 = call (Call_snd_pcm_writei pcm buffer frames) w in (ret E (trace w1), w1))"

definition snd_pcm_recover ::
  "environment \<Rightarrow> nat option \<Rightarrow> int \<Rightarrow> int \<Rightarrow> world \<Rightarrow> int \<times> world" where
  "snd_pcm_recover E pcm err silent w =
     (let w1 = call (Call_snd_pcm_recover pcm err silent) w in (ret E (trace w1), w1))"

text \<open>
  The calls that the module passes to \<open>CHK_ALSA_ERRNO\<close> (\<open>snd_pcm_drain\<close>,
  \<open>snd_pcm_close\<close>, \<open>snd_ctl_open\<close>, \<open>snd_ctl_close\<close>, \<open>snd_ctl_elem_id_malloc\<close>,
  \<open>snd_ctl_elem_list\<close>, \<open>snd_ctl_elem_list_alloc_space\<close>, \<open>snd_ctl_convert_from_dB\<close>
  and \<open>snd_ctl_elem_write\<close>) give the value returned, the output argument and the new
  world. A handle is gone after its close whatever the close returns; a call on a handle
  that is already closed is recorded like any other, and the environment answers it.
\<close>

definition snd_pcm_drain ::
  "environment \<Rightarrow> nat option \<Rightarrow> world \<Rightarrow> int \<times> unit \<times> world" where
  "snd_pcm_drain E pcm w =
     (let w1 = call (Call_snd_pcm_drain pcm) w in (ret E (trace w1), (), w1))"

definition snd_pcm_close ::
  "environment \<Rightarrow> nat option \<Rightarrow> world \<Rightarrow> int \<times> unit \<times> world" where
  "snd_pcm_close E pcm w =
     (let w1 = call (Call_snd_pcm_close pcm) w; err = ret E (trace w1) in
      case pcm of
        None \<Rightarrow> (err, (), w1)
      | Some p \<Rightarrow>
          (err, (), release (PcmHandle p) (w1\<lparr>pcm_setup := (pcm_setup w1)(p := None)\<rparr>)))"

text \<open>
  \<open>snd_ctl_open (&renderer->ctl, name, mode)\<close>: \<open>ctlp\<close> is what the cell holds before
  the call. A failed open leaves the cell as it is, a successful one stores the new
  handle.
\<close>

definition snd_ctl_open ::
  "environment \<Rightarrow> nat option \<Rightarrow> string \<Rightarrow> int \<Rightarrow> world \<Rightarrow> int \<times> nat option \<times> world" where
  "snd_ctl_open E ctlp name mode w =
     (let w1 = call (Call_snd_ctl_open name mode) w; err = ret E (trace w1) in
      if err < 0 then (err, ctlp, w1)
      else (err, Some (next_id w1), allocate (CtlHandle (next_id w1)) w1))"

definition snd_ctl_close ::
  "environment \<Rightarrow> nat option \<Rightarrow> world \<Rightarrow> int \<times> unit \<times> world" where
  "snd_ctl_close E c w =
     (let w1 = call (Call_snd_ctl_close c) w; err = ret E (trace w1) in
      case c of
        None \<Rightarrow> (err, (), w1)
      | Some h \<Rightarrow> (err, (), release (CtlHandle h) w1))"

text \<open>
  \<open>snd_ctl_elem_id_malloc\<close> stores a zeroed element id, or NULL when it fails.
\<close>

definition snd_ctl_elem_id_malloc :: "environment \<Rightarrow> world \<Rightarrow> int \<times> addr option \<times> world" where
  "snd_ctl_elem_id_malloc E w =
     (let w1 = call Call_snd_ctl_elem_id_malloc w; err = ret E (trace w1) in
      if err < 0 then (err, None, w1)
      else
        (let a = next_id w1 in
         (err, Some a,
          allocate (Mem a)
            (w1\<lparr>elem_ids := (elem_ids w1)(a \<mapsto> \<lparr>numid = 0, iface = SND_CTL_ELEM_IFACE_CARD\<rparr>)\<rparr>))))"

definition snd_ctl_elem_id_set_interface ::
  "addr option \<Rightarrow> snd_ctl_elem_iface_t \<Rightarrow> world \<Rightarrow> world" where
  "snd_ctl_elem_id_set_interface obj val w =
     (case obj of
        None \<Rightarrow> w
      | Some a \<Rightarrow>
          (case elem_ids w a of
             None \<Rightarrow> w
           | Some x \<Rightarrow> w\<lparr>elem_ids := (elem_ids w)(a \<mapsto> x\<lparr>iface := val\<rparr>)\<rparr>))"

definition snd_ctl_elem_id_set_numid :: "addr option \<Rightarrow> nat \<Rightarrow> world \<Rightarrow> world" where
  "snd_ctl_elem_id_set_numid obj val w =
     (case obj of
        None \<Rightarrow> w
      | Some a \<Rightarrow>
          (case elem_ids w a of
             None \<Rightarrow> w
           | Some x \<Rightarrow> w\<lparr>elem_ids := (elem_ids w)(a \<mapsto> x\<lparr>numid := val\<rparr>)\<rparr>))"

text \<open>
  The element list. \<open>snd_ctl_elem_list\<close> leaves in the list object what the device
  reports at that call. The module asks for the list in two statements: one to learn
  the count, and, after \<open>snd_ctl_elem_list_alloc_space\<close>, one to have the identifiers
  filled in. The model takes the list the first statement leaves as the list of both
  (the elements of a device do not change between the two), so that the count is the
  length of the list and every index the loop reads is in range.
\<close>

definition snd_ctl_elem_list ::
  "environment \<Rightarrow> nat option \<Rightarrow> world \<Rightarrow> int \<times> (string \<times> nat) list \<times> world" where
  "snd_ctl_elem_list E c w =
     (let w1 = call (Call_snd_ctl_elem_list c) w in
      (ret E (trace w1), elem_list E (trace w1), w1))"

definition snd_ctl_elem_list_get_count :: "(string \<times> nat) list \<Rightarrow> nat" where
  "snd_ctl_elem_list_get_count list = length list"

definition snd_ctl_elem_list_alloc_space ::
  "environment \<Rightarrow> nat \<Rightarrow> world \<Rightarrow> int \<times> addr option \<times> world" where
  "snd_ctl_elem_list_alloc_space E entries w =
     (let w1 = call (Call_snd_ctl_elem_list_alloc_space entries) w; err = ret E (trace w1) in
      if err < 0 then (err, None, w1)
      else (err, Some (next_id w1), allocate (Mem (next_id w1)) w1))"

definition snd_ctl_elem_list_free_space :: "addr option \<Rightarrow> world \<Rightarrow> world" where
  "snd_ctl_elem_list_free_space space w =
     (let w1 = call (Call_snd_ctl_elem_list_free_space space) w in
      case space of None \<Rightarrow> w1 | Some a \<Rightarrow> release (Mem a) w1)"

definition snd_ctl_elem_list_get_name :: "(string \<times> nat) list \<Rightarrow> nat \<Rightarrow> string" where
  "snd_ctl_elem_list_get_name list idx = (if idx < length list then fst (list ! idx) else [])"

definition snd_ctl_elem_list_get_numid :: "(string \<times> nat) list \<Rightarrow> nat \<Rightarrow> nat" where
  "snd_ctl_elem_list_get_numid list idx = (if idx < length list then snd (list ! idx) else 0)"

definition snd_ctl_convert_from_dB ::
  "environment \<Rightarrow> nat option \<Rightarrow> snd_ctl_elem_id_t option \<Rightarrow> int \<Rightarrow> int \<Rightarrow> world
     \<Rightarrow> int \<times> int \<times> world" where
  "snd_ctl_convert_from_dB E c elem_id db_gain xdir w =
     (let w1 = call (Call_snd_ctl_convert_from_dB c elem_id db_gain xdir) w in
      (ret E (trace w1), raw_out E (trace w1), w1))"

definition snd_ctl_elem_write ::
  "environment \<Rightarrow> nat option \<Rightarrow> snd_ctl_elem_value_t \<Rightarrow> world \<Rightarrow> int \<times> unit \<times> world" where
  "snd_ctl_elem_write E c data w =
     (let w1 = call (Call_snd_ctl_elem_write c data) w in (ret E (trace w1), (), w1))"

subsection \<open>libc: strstr\<close>

fun starts_with :: "string \<Rightarrow> string \<Rightarrow> bool" where
  "starts_with s [] = True"
| "starts_with [] (c # cs) = False"
| "starts_with (x # xs) (c # cs) = (x = c \<and> starts_with xs cs)"

text \<open>\<open>strstr\<close> returns the rest of the haystack from the first occurrence of the needle on.\<close>

fun strstr :: "string \<Rightarrow> string \<Rightarrow> string option" where
  "strstr [] needle = (if needle = [] then Some [] else None)"
| "strstr (c # cs) needle =
     (if starts_with (c # cs) needle then Some (c # cs) else strstr cs needle)"

subsection \<open>C arithmetic\<close>

text \<open>
  \<open>UINT x = data_len\<close> converts an \<open>int\<close> to a 32-bit unsigned value, and
  \<open>(int) playedFrames\<close> a \<open>long\<close> to a 32-bit signed one: both wrap. The conversion
  of a \<open>float\<close> to \<open>long\<close> truncates towards zero and is undefined when the result
  does not fit, or for an infinity or NaN; a signed product that does not fit is
  undefined as well.
\<close>

definition uint_of_int :: "int \<Rightarrow> int" where
  "uint_of_int x = x mod 2 ^ 32"

definition int_of_long :: "int \<Rightarrow> int" where
  "int_of_long x = (x + 2 ^ 31) mod 2 ^ 32 - 2 ^ 31"

definition in_long :: "environment \<Rightarrow> int \<Rightarrow> bool" where
  "in_long E x = (- (2 ^ (long_bits E - 1)) \<le> x \<and> x < 2 ^ (long_bits E - 1))"

definition trunc_toward_zero :: "real \<Rightarrow> int" where
  "trunc_toward_zero x = (if 0 \<le> x then \<lfloor>x\<rfloor> else \<lceil>x\<rceil>)"

definition long_of_float :: "environment \<Rightarrow> c_float \<Rightarrow> int option" where
  "long_of_float E v =
     (case v of
        Finite x \<Rightarrow> if in_long E (trunc_toward_zero x) then Some (trunc_toward_zero x) else None
      | PlusInfinity \<Rightarrow> None
      | MinusInfinity \<Rightarrow> None
      | NaN \<Rightarrow> None)"

definition long_mult :: "environment \<Rightarrow> int \<Rightarrow> int \<Rightarrow> int option" where
  "long_mult E a b = (if in_long E (a * b) then Some (a * b) else None)"

text \<open>C's \<open>truncf\<close>, to state what the conversion discards.\<close>

definition truncf :: "c_float \<Rightarrow> c_float" where
  "truncf v =
     (case v of
        Finite x \<Rightarrow> Finite (of_int (trunc_toward_zero x))
      | PlusInfinity \<Rightarrow> PlusInfinity
      | MinusInfinity \<Rightarrow> MinusInfinity
      | NaN \<Rightarrow> NaN)"

subsection \<open>The decoder binding\<close>

definition audio_renderer_alsa_destroy_decoder :: "audio_renderer_alsa_t \<Rightarrow> world \<Rightarrow> world" where
  "audio_renderer_alsa_destroy_decoder renderer w = aacDecoder_Close (audio_decoder renderer) w"

definition eld_conf :: "uchar list" where
  "eld_conf = [0xF8, 0xE8, 0x50, 0x00]"

definition stream_info_fmt :: string where
  "stream_info_fmt =
     ''> stream info: channel = %d'' @ CHR 0x09 # ''sample_rate = %d'' @ CHR 0x09 #
     ''frame_size = %d'' @ CHR 0x09 # ''aot = %d'' @ CHR 0x09 # ''bitrate = %d''"

text \<open>
  The static functions receive the renderer structure as a value and return it
  updated; \<open>audio_renderer_alsa_init\<close> stores it at its address.
\<close>

definition audio_renderer_alsa_init_decoder ::
  "environment \<Rightarrow> audio_renderer_alsa_t \<Rightarrow> world \<Rightarrow> int \<times> audio_renderer_alsa_t \<times> world" where
  "audio_renderer_alsa_init_decoder E renderer w =
     (let (d, w1) = aacDecoder_Open E TT_MP4_RAW 1 w;
          r1 = renderer\<lparr>audio_decoder := d\<rparr>
      in
      if audio_decoder r1 = None then
        (- 1, r1,
         logger_log (base_logger r1) LOGGER_ERR (ArgStr ''aacDecoder open failed!'') [] w1)
      else
        (let (rc, w2) = aacDecoder_ConfigRaw E (audio_decoder r1) eld_conf (length eld_conf) w1 in
         if rc \<noteq> AAC_DEC_OK then
           (- 2, r1,
            logger_log (base_logger r1) LOGGER_ERR (ArgStr ''Unable to set configRaw'') [] w2)
         else
           (let (aac_stream_info, w3) = aacDecoder_GetStreamInfo E (audio_decoder r1) w2 in
            case aac_stream_info of
              None \<Rightarrow>
                (- 3, r1,
                 logger_log (base_logger r1) LOGGER_ERR
                   (ArgStr ''aacDecoder_GetStreamInfo failed!'') [] w3)
            | Some si \<Rightarrow>
                (1, r1,
                 logger_log (base_logger r1) LOGGER_DEBUG (ArgStr stream_info_fmt)
                   [ArgInt (channelConfig si), ArgInt (aacSampleRate si),
                    ArgInt (aacSamplesPerFrame si), ArgInt (aot si), ArgInt (bitRate si)] w3))))"

subsection \<open>The output device binding\<close>

definition audio_renderer_rpi_destroy_renderer ::
  "environment \<Rightarrow> audio_renderer_alsa_t \<Rightarrow> world \<Rightarrow> world" where
  "audio_renderer_rpi_destroy_renderer E renderer w =
     (let (u1, w1) =
            CHK_ALSA_ERRNO (snd_pcm_drain E (audio_renderer renderer))
              ''ALSA PCM drain'' (base_logger renderer) w;
          (u2, w2) =
            CHK_ALSA_ERRNO (snd_pcm_close E (audio_renderer renderer))
              ''ALSA PCM close'' (base_logger renderer) w1;
          (u3, w3) =
            CHK_ALSA_ERRNO (snd_ctl_close E (ctl renderer))
              ''ALSA CTL close'' (base_logger renderer) w2
      in w3)"

text \<open>
  The loop of \<open>audio_renderer_rpi_init_renderer\<close> that looks for the volume element:
  \<open>for ( ; count != 0; count-- )\<close>, reading index \<open>count - 1\<close>. The second equation is
  the body at \<open>count = Suc n\<close>: a match sets the numeric id and leaves the loop; otherwise
  the flag is cleared when \<open>count = 1\<close>, and the loop goes on with \<open>n\<close>.
\<close>

fun find_playback_volume ::
  "(string \<times> nat) list \<Rightarrow> audio_renderer_alsa_t \<Rightarrow> nat \<Rightarrow> world \<Rightarrow> world" where
  "find_playback_volume list renderer 0 w = w"
| "find_playback_volume list renderer (Suc n) w =
     (if strstr (snd_ctl_elem_list_get_name list n) ''Playback Volume'' \<noteq> None then
        snd_ctl_elem_id_set_numid (ctl_elem_id renderer) (snd_ctl_elem_list_get_numid list n) w
      else
        find_playback_volume list renderer n
          (if Suc n = 1 then
             (logger_log (base_logger renderer) LOGGER_INFO
                (ArgStr ''Cannot control Volume for selected device'') [] w)
               \<lparr>mHasCtrlVolume := False\<rparr>
           else w))"

text \<open>
  The part of \<open>audio_renderer_rpi_init_renderer\<close> after the PCM is set up (source lines
  119 to 148): the control surface. Every call that can fail is the argument of
  \<open>CHK_ALSA_ERRNO\<close>, so none of them ends the construction, and each is made again
  when it returns a negative value.
\<close>

definition open_control_surface ::
  "environment \<Rightarrow> string \<Rightarrow> audio_renderer_alsa_t \<Rightarrow> world \<Rightarrow> int \<times> audio_renderer_alsa_t \<times> world" where
  "open_control_surface E device renderer w =
     (let (c, w1) =
            CHK_ALSA_ERRNO (snd_ctl_open E (ctl renderer) device 0)
              ''Ctrl open'' (base_logger renderer) w;
          r1 = renderer\<lparr>ctl := c\<rparr>;
          (i, w2) =
            CHK_ALSA_ERRNO (snd_ctl_elem_id_malloc E)
              ''Ctrl mem allocation'' (base_logger r1) w1;
          r2 = r1\<lparr>ctl_elem_id := i\<rparr>;
          w3 = snd_ctl_elem_id_set_interface (ctl_elem_id r2) SND_CTL_ELEM_IFACE_MIXER w2;
          (list, w4) =
            CHK_ALSA_ERRNO (snd_ctl_elem_list E (ctl r2))
              ''Get ALSA control element list'' (base_logger r2) w3;
          count = snd_ctl_elem_list_get_count list;
          (space, w5) =
            CHK_ALSA_ERRNO (snd_ctl_elem_list_alloc_space E count)
              ''Alloc space for ALSA ctrl ID'' (base_logger r2) w4;
          (list2, w6) =
            CHK_ALSA_ERRNO (snd_ctl_elem_list E (ctl r2))
              ''Get ALSA control element list'' (base_logger r2) w5;
          w7 = w6\<lparr>mHasCtrlVolume := True\<rparr>;
          w8 = find_playback_volume list r2 count w7;
          w9 = snd_ctl_elem_list_free_space space w8
      in (1, r2, w9))"

definition playback_params :: snd_pcm_params where
  "playback_params =
     \<lparr>pcm_format = SND_PCM_FORMAT_S16_LE, pcm_access = SND_PCM_ACCESS_RW_INTERLEAVED,
      pcm_channels = 2, pcm_rate = 44100, pcm_soft_resample = 1, pcm_latency = 100000\<rparr>"

definition audio_renderer_rpi_init_renderer ::
  "environment \<Rightarrow> audio_renderer_alsa_t \<Rightarrow> video_renderer_t option \<Rightarrow> world
     \<Rightarrow> fault + (int \<times> audio_renderer_alsa_t \<times> world)" where
  "audio_renderer_rpi_init_renderer E renderer video_renderer w =
     (case config renderer of
        None \<Rightarrow> Inl InvalidPointer
      | Some cfg \<Rightarrow>
          (let device = (case alsaString cfg of Some s \<Rightarrow> s | None \<Rightarrow> ''default'');
               (err, p, w1) = snd_pcm_open E device SND_PCM_STREAM_PLAYBACK 0 w;
               r1 = (if err < 0 then renderer else renderer\<lparr>audio_renderer := p\<rparr>)
           in
           if err < 0 then
             Inr (- 51, r1, logger_log (base_logger r1) LOGGER_ERR (ArgStrerror err) [] w1)
           else
             (let (err2, w2) = snd_pcm_set_params E (audio_renderer r1) playback_params w1 in
              if err2 < 0 then
                Inr (- 52, r1, logger_log (base_logger r1) LOGGER_ERR (ArgStrerror err2) [] w2)
              else Inr (open_control_surface E device r1 w2))))"

subsection \<open>The renderer\<close>

definition audio_renderer_alsa_init ::
  "environment \<Rightarrow> nat option \<Rightarrow> video_renderer_t option \<Rightarrow> audio_renderer_config_t option
     \<Rightarrow> world \<Rightarrow> fault + (addr option \<times> world)" where
  "audio_renderer_alsa_init E logger video_renderer cfg w =
     (let (renderer, w1) = calloc_renderer E w in
      case renderer of
        None \<Rightarrow> Inr (None, w1)
      | Some a \<Rightarrow>
          (let r0 = zero_renderer\<lparr>base_logger := logger,
                                   base_funcs := Some Audio_renderer_alsa_funcs,
                                   base_type := Some AUDIO_RENDERER_RPI\<rparr>;
               video_renderer' =
                 (case video_renderer of
                    None \<Rightarrow> None
                  | Some v \<Rightarrow> if video_type v \<noteq> VIDEO_RENDERER_RPI then None else Some v);
               r1 = r0\<lparr>config := cfg\<rparr>;
               (rc, r2, w2) = audio_renderer_alsa_init_decoder E r1 w1
           in
           if rc \<noteq> 1 then Inr (None, free (Some a) w2)
           else
             (case audio_renderer_rpi_init_renderer E r2 video_renderer' w2 of
                Inl f \<Rightarrow> Inl f
              | Inr (rc2, r3, w3) \<Rightarrow>
                  if rc2 \<noteq> 1 then
                    Inr (None, free (Some a) (audio_renderer_alsa_destroy_decoder r3 w3))
                  else Inr (Some a, w3\<lparr>heap := (heap w3)(a \<mapsto> r3)\<rparr>))))"

definition audio_renderer_alsa_start :: "addr option \<Rightarrow> world \<Rightarrow> world" where
  "audio_renderer_alsa_start renderer w = w"

definition deref :: "world \<Rightarrow> addr option \<Rightarrow> audio_renderer_alsa_t option" where
  "deref w p = (case p of None \<Rightarrow> None | Some a \<Rightarrow> heap w a)"

text \<open>
  \<open>audio_renderer_alsa_render_buffer\<close> in two stages and the function itself: the
  decode stage is source lines 201 to 220 (log, fill, allocate the PCM frame, decode),
  the write stage lines 230 to 240 (write, recover, log). The block under
  \<open>#ifdef DUMP_AUDIO\<close> is not compiled by default and is left out.
\<close>

definition decode_stage ::
  "environment \<Rightarrow> audio_renderer_alsa_t \<Rightarrow> uchar list \<Rightarrow> int \<Rightarrow> world \<Rightarrow> addr option \<times> world" where
  "decode_stage E r data data_len w =
     (let w1 = logger_log (base_logger r) LOGGER_DEBUG (ArgStr ''Got AAC data of %d bytes'')
                 [ArgInt data_len] w;
          buffer_size = uint_of_int data_len;
          bytes_valid = uint_of_int data_len;
          (error, w2) = aacDecoder_Fill E (audio_decoder r) data buffer_size bytes_valid w1;
          w3 = (if error \<noteq> AAC_DEC_OK then
                  logger_log (base_logger r) LOGGER_ERR (ArgStr ''aacDecoder_Fill error : %x'')
                    [ArgInt error] w2
                else w2);
          time_data_size = 4 * 480;
          (p_time_data, w4) = malloc E time_data_size w3;
          (error2, w5) = aacDecoder_DecodeFrame E (audio_decoder r) p_time_data time_data_size 0 w4;
          w6 = (if error2 \<noteq> AAC_DEC_OK then
                  logger_log (base_logger r) LOGGER_ERR
                    (ArgStr ''aacDecoder_DecodeFrame error : 0x%x'') [ArgInt error2] w5
                else w5)
      in (p_time_data, w6))"

definition partial_write_fmt :: string where
  "partial_write_fmt = ''ALSA: Expected write %li, but wrote %li frames)'' @ [CHR 0x0A]"

definition write_stage ::
  "environment \<Rightarrow> audio_renderer_alsa_t \<Rightarrow> addr option \<Rightarrow> world \<Rightarrow> world" where
  "write_stage E r p_time_data w =
     (let time_data_size = 4 * 480;
          receivedFrames = snd_pcm_bytes_to_frames w (audio_renderer r) time_data_size;
          (playedFrames, w1) = snd_pcm_writei E (audio_renderer r) p_time_data receivedFrames w;
          (playedFrames2, w2) =
            (if playedFrames < 0 then
               snd_pcm_recover E (audio_renderer r) (int_of_long playedFrames) 0 w1
             else (playedFrames, w1));
          w3 = (if playedFrames2 < 0 then
                  logger_log (base_logger r) LOGGER_ERR (ArgStrerror (int_of_long playedFrames2)) [] w2
                else w2)
      in
      if playedFrames2 > 0 \<and> playedFrames2 < receivedFrames then
        logger_log (base_logger r) LOGGER_ERR
          (ArgStr partial_write_fmt) [ArgInt receivedFrames, ArgInt playedFrames2] w3
      else w3)"

definition audio_renderer_alsa_render_buffer ::
  "environment \<Rightarrow> addr option \<Rightarrow> 'ntp \<Rightarrow> uchar list \<Rightarrow> int \<Rightarrow> 'pts \<Rightarrow> world \<Rightarrow> fault + world" where
  "audio_renderer_alsa_render_buffer E renderer ntp data data_len pts w =
     (if data_len = 0 then Inr w
      else
        case deref w renderer of
          None \<Rightarrow> Inl InvalidPointer
        | Some r \<Rightarrow>
            (let (p_time_data, w1) = decode_stage E r data data_len w;
                 w2 = write_stage E r p_time_data w1
             in Inr (free p_time_data w2)))"

text \<open>
  \<open>audio_renderer_alsa_set_volume\<close>. The element value is zeroed by
  \<open>snd_ctl_elem_value_alloca\<close>, receives a copy of the element id, and \<open>raw\<close> at the
  integer positions 0 and 1.
\<close>

definition elem_id_at :: "world \<Rightarrow> addr option \<Rightarrow> snd_ctl_elem_id_t option" where
  "elem_id_at w p = (case p of None \<Rightarrow> None | Some a \<Rightarrow> elem_ids w a)"

definition snd_ctl_elem_value_set_id ::
  "snd_ctl_elem_value_t \<Rightarrow> snd_ctl_elem_id_t option \<Rightarrow> snd_ctl_elem_value_t" where
  "snd_ctl_elem_value_set_id obj ptr = obj\<lparr>value_id := ptr\<rparr>"

definition snd_ctl_elem_value_set_integer ::
  "snd_ctl_elem_value_t \<Rightarrow> nat \<Rightarrow> int \<Rightarrow> snd_ctl_elem_value_t" where
  "snd_ctl_elem_value_set_integer obj idx val =
     obj\<lparr>value_integer := (value_integer obj)(idx := val)\<rparr>"

definition audio_renderer_alsa_set_volume ::
  "environment \<Rightarrow> addr option \<Rightarrow> c_float \<Rightarrow> world \<Rightarrow> fault + world" where
  "audio_renderer_alsa_set_volume E renderer volume w =
     (if \<not> mHasCtrlVolume w then Inr w
      else
        case deref w renderer of
          None \<Rightarrow> Inl InvalidPointer
        | Some r \<Rightarrow>
            (case long_of_float E volume of
               None \<Rightarrow> Inl UndefinedArithmetic
             | Some l \<Rightarrow>
                 (case long_mult E l 200 of
                    None \<Rightarrow> Inl UndefinedArithmetic
                  | Some db_gain \<Rightarrow>
                      (let (raw, w1) =
                             CHK_ALSA_ERRNO
                               (snd_ctl_convert_from_dB E (ctl r)
                                  (elem_id_at w (ctl_elem_id r)) db_gain 0)
                               ''Convert'' (base_logger r) w;
                           value0 = \<lparr>value_id = None, value_integer = (\<lambda>_. 0)\<rparr>;
                           value1 = snd_ctl_elem_value_set_id value0 (elem_id_at w1 (ctl_elem_id r));
                           value2 = snd_ctl_elem_value_set_integer value1 0 raw;
                           value3 = snd_ctl_elem_value_set_integer value2 1 raw;
                           (u, w2) =
                             CHK_ALSA_ERRNO (snd_ctl_elem_write E (ctl r) value3)
                               ''Set volume'' (base_logger r) w1
                       in Inr w2))))"

definition audio_renderer_alsa_flush :: "addr option \<Rightarrow> world \<Rightarrow> world" where
  "audio_renderer_alsa_flush renderer w = w"

definition audio_renderer_alsa_destroy :: "environment \<Rightarrow> addr option \<Rightarrow> world \<Rightarrow> fault + world" where
  "audio_renderer_alsa_destroy E renderer w =
     (case renderer of
        None \<Rightarrow> Inr w
      | Some a \<Rightarrow>
          (case heap w a of
             None \<Rightarrow> Inl InvalidPointer
           | Some r \<Rightarrow>
               (let w1 = audio_renderer_alsa_flush renderer w;
                    w2 = audio_renderer_alsa_destroy_decoder r w1;
                    w3 = audio_renderer_rpi_destroy_renderer E r w2
                in Inr (free renderer w3))))"

subsection \<open>Observing the trace\<close>

fun is_snd_pcm_writei :: "event \<Rightarrow> bool" where
  "is_snd_pcm_writei (Call_snd_pcm_writei _ _ _) = True"
| "is_snd_pcm_writei _ = False"

fun is_snd_pcm_recover :: "event \<Rightarrow> bool" where
  "is_snd_pcm_recover (Call_snd_pcm_recover _ _ _) = True"
| "is_snd_pcm_recover _ = False"

fun is_malloc :: "event \<Rightarrow> bool" where
  "is_malloc (Call_malloc _) = True"
| "is_malloc _ = False"

fun is_free :: "event \<Rightarrow> bool" where
  "is_free (Call_free _) = True"
| "is_free _ = False"

fun is_decoder_call :: "event \<Rightarrow> bool" where
  "is_decoder_call (Call_aacDecoder_Fill _ _ _ _) = True"
| "is_decoder_call (Call_aacDecoder_DecodeFrame _ _ _ _) = True"
| "is_decoder_call _ = False"

text \<open>The calls that release a resource the renderer owns.\<close>

fun is_release :: "event \<Rightarrow> bool" where
  "is_release (Call_free _) = True"
| "is_release (Call_aacDecoder_Close _) = True"
| "is_release (Call_snd_pcm_close _) = True"
| "is_release (Call_snd_ctl_close _) = True"
| "is_release _ = False"

text \<open>The events a call has added to the trace.\<close>

definition new_events :: "world \<Rightarrow> world \<Rightarrow> event list" where
  "new_events w w' = drop (length (trace w)) (trace w')"

fun is_config_raw :: "event \<Rightarrow> bool" where
  "is_config_raw (Call_aacDecoder_ConfigRaw _ _ _) = True"
| "is_config_raw _ = False"

fun is_snd_pcm_open :: "event \<Rightarrow> bool" where
  "is_snd_pcm_open (Call_snd_pcm_open _ _ _) = True"
| "is_snd_pcm_open _ = False"

fun is_snd_pcm_set_params :: "event \<Rightarrow> bool" where
  "is_snd_pcm_set_params (Call_snd_pcm_set_params _ _) = True"
| "is_snd_pcm_set_params _ = False"

fun is_snd_ctl_open :: "event \<Rightarrow> bool" where
  "is_snd_ctl_open (Call_snd_ctl_open _ _) = True"
| "is_snd_ctl_open _ = False"

fun is_snd_ctl_convert_from_dB :: "event \<Rightarrow> bool" where
  "is_snd_ctl_convert_from_dB (Call_snd_ctl_convert_from_dB _ _ _ _) = True"
| "is_snd_ctl_convert_from_dB _ = False"

fun is_snd_ctl_elem_write :: "event \<Rightarrow> bool" where
  "is_snd_ctl_elem_write (Call_snd_ctl_elem_write _ _) = True"
| "is_snd_ctl_elem_write _ = False"

text \<open>
  The events of one statement \<open>CHK_ALSA_ERRNO (call, msg, r)\<close> that starts after the
  history \<open>h\<close>, for a library call that is recorded as \<open>ev\<close>: the call alone when it
  returns zero or more; otherwise the call, the same call again, and the log entry with
  the result of the second.
\<close>

definition CHK_ALSA_ERRNO_events ::
  "environment \<Rightarrow> event \<Rightarrow> string \<Rightarrow> nat option \<Rightarrow> event list \<Rightarrow> event list" where
  "CHK_ALSA_ERRNO_events E ev msg r h =
     (if ret E (h @ [ev]) < 0 then
        [ev, ev,
         Call_logger_log r LOGGER_ERR (ArgStr ''%s: %s'')
           [ArgStr msg, ArgStrerror (ret E (h @ [ev, ev]))]]
      else [ev])"

text \<open>None of the first \<open>n\<close> names of a control element list contains the pattern.\<close>

fun no_playback_volume :: "(string \<times> nat) list \<Rightarrow> nat \<Rightarrow> bool" where
  "no_playback_volume list 0 = True"
| "no_playback_volume list (Suc n) =
     (strstr (snd_ctl_elem_list_get_name list n) ''Playback Volume'' = None
      \<and> no_playback_volume list n)"

subsection \<open>Concrete devices and worlds\<close>

text \<open>
  The world before the first call, and devices whose every answer is fixed by the last
  call of the history: \<open>scripted_device answer elems\<close> returns \<open>answer\<close> of that call, hands
  out every pointer asked for, and reports the control elements \<open>elems\<close>.
\<close>

definition initial_world :: world where
  "initial_world =
     \<lparr>heap = Map.empty, elem_ids = Map.empty, pcm_setup = Map.empty, live = [],
      next_id = 1, mHasCtrlVolume = False, trace = []\<rparr>"

definition demo_config :: audio_renderer_config_t where
  "demo_config = \<lparr>alsaString = None\<rparr>"

definition demo_stream_info :: CStreamInfo where
  "demo_stream_info =
     \<lparr>channelConfig = 2, aacSampleRate = 44100, aacSamplesPerFrame = 480, aot = 39,
      bitRate = 0\<rparr>"

definition demo_elems :: "(string \<times> nat) list" where
  "demo_elems = [(''Master Playback Volume'', 7), (''Master Playback Switch'', 8)]"

definition demo_data :: "uchar list" where
  "demo_data = [0x8C, 0x1A, 0x00, 0x3F]"

fun converted :: "event \<Rightarrow> int" where
  "converted (Call_snd_ctl_convert_from_dB _ _ g _) = g div 100 + 100"
| "converted _ = 0"

definition scripted_device :: "(event \<Rightarrow> int) \<Rightarrow> (string \<times> nat) list \<Rightarrow> environment" where
  "scripted_device answer elems =
     \<lparr>long_bits = 64, ret = (\<lambda>h. answer (last h)), non_null = (\<lambda>_. True),
      stream_info = (\<lambda>_. demo_stream_info), elem_list = (\<lambda>_. elems),
      raw_out = (\<lambda>h. converted (last h))\<rparr>"

fun all_succeed :: "event \<Rightarrow> int" where
  "all_succeed (Call_snd_pcm_writei _ _ n) = n"
| "all_succeed _ = 0"

fun decoder_errors :: "event \<Rightarrow> int" where
  "decoder_errors (Call_aacDecoder_Fill _ _ _ _) = 0x2001"
| "decoder_errors (Call_aacDecoder_DecodeFrame _ _ _ _) = 0x4002"
| "decoder_errors (Call_snd_pcm_writei _ _ n) = n"
| "decoder_errors _ = 0"

fun underrun :: "event \<Rightarrow> int" where
  "underrun (Call_snd_pcm_writei _ _ _) = - 32"
| "underrun (Call_snd_pcm_recover _ _ _) = - 5"
| "underrun _ = 0"

fun ctl_open_fails :: "event \<Rightarrow> int" where
  "ctl_open_fails (Call_snd_ctl_open _ _) = - 2"
| "ctl_open_fails (Call_snd_ctl_elem_list _) = - 22"
| "ctl_open_fails _ = 0"

fun volume_calls_fail :: "event \<Rightarrow> int" where
  "volume_calls_fail (Call_snd_ctl_convert_from_dB _ _ _ _) = - 22"
| "volume_calls_fail (Call_snd_ctl_elem_write _ _) = - 1"
| "volume_calls_fail _ = 0"

fun teardown_fails :: "event \<Rightarrow> int" where
  "teardown_fails (Call_snd_pcm_drain _) = - 5"
| "teardown_fails (Call_snd_pcm_close _) = - 9"
| "teardown_fails _ = 0"

fun set_params_fails :: "event \<Rightarrow> int" where
  "set_params_fails (Call_snd_pcm_set_params _ _) = - 22"
| "set_params_fails _ = 0"

fun config_raw_fails :: "event \<Rightarrow> int" where
  "config_raw_fails (Call_aacDecoder_ConfigRaw _ _ _) = 5"
| "config_raw_fails _ = 0"

definition demo_renderer :: audio_renderer_alsa_t where
  "demo_renderer =
     \<lparr>base_logger = Some 0, base_funcs = Some Audio_renderer_alsa_funcs,
      base_type = Some AUDIO_RENDERER_RPI, config = Some demo_config,
      audio_decoder = Some 2, audio_renderer = Some 3, ctl = Some 4, ctl_elem_id = Some 5\<rparr>"

definition decoder_phase_trace :: "event list" where
  "decoder_phase_trace =
     [Call_calloc, Call_aacDecoder_Open TT_MP4_RAW 1,
      Call_aacDecoder_ConfigRaw (Some 2) eld_conf 4, Call_aacDecoder_GetStreamInfo (Some 2),
      Call_logger_log (Some 0) LOGGER_DEBUG (ArgStr stream_info_fmt)
        [ArgInt 2, ArgInt 44100, ArgInt 480, ArgInt 39, ArgInt 0]]"

definition pcm_phase_trace :: "event list" where
  "pcm_phase_trace =
     [Call_snd_pcm_open ''default'' SND_PCM_STREAM_PLAYBACK 0,
      Call_snd_pcm_set_params (Some 3) playback_params]"

text \<open>The world after a successful construction on the device \<open>scripted_device all_succeed demo_elems\<close>.\<close>

definition running_world :: world where
  "running_world =
     \<lparr>heap = [1 \<mapsto> demo_renderer],
      elem_ids = [5 \<mapsto> \<lparr>numid = 7, iface = SND_CTL_ELEM_IFACE_MIXER\<rparr>],
      pcm_setup = [3 \<mapsto> playback_params],
      live = [Mem 5, CtlHandle 4, PcmHandle 3, AacDecoder 2, Mem 1],
      next_id = 7, mHasCtrlVolume = True,
      trace = decoder_phase_trace @ pcm_phase_trace @
        [Call_snd_ctl_open ''default'' 0, Call_snd_ctl_elem_id_malloc,
         Call_snd_ctl_elem_list (Some 4), Call_snd_ctl_elem_list_alloc_space 2,
         Call_snd_ctl_elem_list (Some 4), Call_snd_ctl_elem_list_free_space (Some 6)]\<rparr>"

text \<open>The same world after \<open>audio_renderer_alsa_destroy\<close> of its renderer.\<close>

definition destroyed_world :: world where
  "destroyed_world =
     running_world
       \<lparr>heap := Map.empty, pcm_setup := Map.empty, live := [Mem 5],
        trace := trace running_world @
          [Call_aacDecoder_Close (Some 2), Call_snd_pcm_drain (Some 3),
           Call_snd_pcm_close (Some 3), Call_snd_ctl_close (Some 4), Call_free (Some 1)]\<rparr>"

text \<open>
  The world after a construction during which \<open>snd_ctl_open\<close> returned \<open>-2\<close> and
  \<open>snd_ctl_elem_list\<close> returned \<open>-22\<close>, on a device that reports no control element:
  each failed call was made twice, the control handle of the renderer is NULL, and
  nothing was released.
\<close>

definition world_without_ctl :: world where
  "world_without_ctl =
     \<lparr>heap = [1 \<mapsto> demo_renderer\<lparr>ctl := None, ctl_elem_id := Some 4\<rparr>],
      elem_ids = [4 \<mapsto> \<lparr>numid = 0, iface = SND_CTL_ELEM_IFACE_MIXER\<rparr>],
      pcm_setup = [3 \<mapsto> playback_params],
      live = [Mem 4, PcmHandle 3, AacDecoder 2, Mem 1],
      next_id = 6, mHasCtrlVolume = True,
      trace = decoder_phase_trace @ pcm_phase_trace @
        [Call_snd_ctl_open ''default'' 0, Call_snd_ctl_open ''default'' 0,
         Call_logger_log (Some 0) LOGGER_ERR (ArgStr ''%s: %s'')
           [ArgStr ''Ctrl open'', ArgStrerror (- 2)],
         Call_snd_ctl_elem_id_malloc,
         Call_snd_ctl_elem_list None, Call_snd_ctl_elem_list None,
         Call_logger_log (Some 0) LOGGER_ERR (ArgStr ''%s: %s'')
           [ArgStr ''Get ALSA control element list'', ArgStrerror (- 22)],
         Call_snd_ctl_elem_list_alloc_space 0,
         Call_snd_ctl_elem_list None, Call_snd_ctl_elem_list None,
         Call_logger_log (Some 0) LOGGER_ERR (ArgStr ''%s: %s'')
           [ArgStr ''Get ALSA control element list'', ArgStrerror (- 22)],
         Call_snd_ctl_elem_list_free_space (Some 5)]\<rparr>"

text \<open>The world after a construction on a device that reports no control element.\<close>

definition world_no_elems :: world where
  "world_no_elems =
     \<lparr>heap = [1 \<mapsto> demo_renderer],
      elem_ids = [5 \<mapsto> \<lparr>numid = 0, iface = SND_CTL_ELEM_IFACE_MIXER\<rparr>],
      pcm_setup = [3 \<mapsto> playback_params],
      live = [Mem 5, CtlHandle 4, PcmHandle 3, AacDecoder 2, Mem 1],
      next_id = 7, mHasCtrlVolume = True,
      trace = decoder_phase_trace @ pcm_phase_trace @
        [Call_snd_ctl_open ''default'' 0, Call_snd_ctl_elem_id_malloc,
         Call_snd_ctl_elem_list (Some 4), Call_snd_ctl_elem_list_alloc_space 0,
         Call_snd_ctl_elem_list (Some 4), Call_snd_ctl_elem_list_free_space (Some 6)]\<rparr>"

text \<open>
  The worlds after the two failed constructions that leave a handle behind:
  \<open>snd_pcm_set_params\<close> returned \<open>-22\<close>, and \<open>aacDecoder_ConfigRaw\<close> returned an error.
\<close>

definition world_after_params_failure :: world where
  "world_after_params_failure =
     \<lparr>heap = Map.empty, elem_ids = Map.empty, pcm_setup = Map.empty,
      live = [PcmHandle 3],
      next_id = 4, mHasCtrlVolume = False,
      trace = decoder_phase_trace @
        [Call_snd_pcm_open ''default'' SND_PCM_STREAM_PLAYBACK 0,
         Call_snd_pcm_set_params (Some 3) playback_params,
         Call_logger_log (Some 0) LOGGER_ERR (ArgStrerror (- 22)) [],
         Call_aacDecoder_Close (Some 2), Call_free (Some 1)]\<rparr>"

definition world_after_config_failure :: world where
  "world_after_config_failure =
     \<lparr>heap = Map.empty, elem_ids = Map.empty, pcm_setup = Map.empty,
      live = [AacDecoder 2],
      next_id = 3, mHasCtrlVolume = False,
      trace =
        [Call_calloc, Call_aacDecoder_Open TT_MP4_RAW 1,
         Call_aacDecoder_ConfigRaw (Some 2) eld_conf 4,
         Call_logger_log (Some 0) LOGGER_ERR (ArgStr ''Unable to set configRaw'') [],
         Call_free (Some 1)]\<rparr>"

section \<open>Properties\<close>

subsection \<open>What each step does to the world\<close>

lemma call_fields [simp]:
  "trace (call e w) = trace w @ [e]"
  "heap (call e w) = heap w"
  "elem_ids (call e w) = elem_ids w"
  "pcm_setup (call e w) = pcm_setup w"
  "live (call e w) = live w"
  "next_id (call e w) = next_id w"
  "mHasCtrlVolume (call e w) = mHasCtrlVolume w"
  by (simp_all add: call_def)

lemma logger_log_fields [simp]:
  "trace (logger_log lg lvl fmt args w) = trace w @ [Call_logger_log lg lvl fmt args]"
  "heap (logger_log lg lvl fmt args w) = heap w"
  "elem_ids (logger_log lg lvl fmt args w) = elem_ids w"
  "pcm_setup (logger_log lg lvl fmt args w) = pcm_setup w"
  "live (logger_log lg lvl fmt args w) = live w"
  "next_id (logger_log lg lvl fmt args w) = next_id w"
  "mHasCtrlVolume (logger_log lg lvl fmt args w) = mHasCtrlVolume w"
  by (simp_all add: logger_log_def)

lemma conditional_log_fields [simp]:
  "trace (if c then logger_log lg lvl fmt args w else w) =
     trace w @ (if c then [Call_logger_log lg lvl fmt args] else [])"
  "heap (if c then logger_log lg lvl fmt args w else w) = heap w"
  "elem_ids (if c then logger_log lg lvl fmt args w else w) = elem_ids w"
  "pcm_setup (if c then logger_log lg lvl fmt args w else w) = pcm_setup w"
  "live (if c then logger_log lg lvl fmt args w else w) = live w"
  "next_id (if c then logger_log lg lvl fmt args w else w) = next_id w"
  "mHasCtrlVolume (if c then logger_log lg lvl fmt args w else w) = mHasCtrlVolume w"
  by simp_all

text \<open>
  The macro: what the wrapped call leaves unchanged, the statement leaves unchanged;
  and the events of the statement are those of \<open>CHK_ALSA_ERRNO_events\<close>, for a call
  that records one event and returns what the environment answers.
\<close>

lemma CHK_ALSA_ERRNO_keeps [simp]:
  "(\<And>v. heap (snd (snd (f v))) = heap v) \<Longrightarrow>
     heap (snd (CHK_ALSA_ERRNO f msg lg w)) = heap w"
  "(\<And>v. elem_ids (snd (snd (f v))) = elem_ids v) \<Longrightarrow>
     elem_ids (snd (CHK_ALSA_ERRNO f msg lg w)) = elem_ids w"
  "(\<And>v. pcm_setup (snd (snd (f v))) = pcm_setup v) \<Longrightarrow>
     pcm_setup (snd (CHK_ALSA_ERRNO f msg lg w)) = pcm_setup w"
  "(\<And>v. live (snd (snd (f v))) = live v) \<Longrightarrow>
     live (snd (CHK_ALSA_ERRNO f msg lg w)) = live w"
  "(\<And>v. next_id (snd (snd (f v))) = next_id v) \<Longrightarrow>
     next_id (snd (CHK_ALSA_ERRNO f msg lg w)) = next_id w"
  "(\<And>v. mHasCtrlVolume (snd (snd (f v))) = mHasCtrlVolume v) \<Longrightarrow>
     mHasCtrlVolume (snd (CHK_ALSA_ERRNO f msg lg w)) = mHasCtrlVolume w"
  by (simp_all add: CHK_ALSA_ERRNO_def Let_def split_def)

lemma CHK_ALSA_ERRNO_trace:
  assumes "\<And>v. trace (snd (snd (f v))) = trace v @ [ev]"
    and "\<And>v. fst (f v) = ret E (trace v @ [ev])"
  shows "trace (snd (CHK_ALSA_ERRNO f msg lg w)) =
           trace w @ CHK_ALSA_ERRNO_events E ev msg lg (trace w)"
  by (simp add: CHK_ALSA_ERRNO_def CHK_ALSA_ERRNO_events_def Let_def split_def assms)

lemma CHK_ALSA_ERRNO_out:
  assumes "\<And>v. trace (snd (snd (f v))) = trace v @ [ev]"
    and "\<And>v. fst (f v) = ret E (trace v @ [ev])"
  shows "fst (CHK_ALSA_ERRNO f msg lg w) =
           (if ret E (trace w @ [ev]) < 0 then fst (snd (f (snd (snd (f w)))))
            else fst (snd (f w)))"
  by (simp add: CHK_ALSA_ERRNO_def Let_def split_def assms)

lemma CHK_ALSA_ERRNO_events_filter:
  assumes "\<And>a b c d. \<not> P (Call_logger_log a b c d)"
  shows "filter P (CHK_ALSA_ERRNO_events E ev msg lg h) =
     (if P ev then (if ret E (h @ [ev]) < 0 then [ev, ev] else [ev]) else [])"
  by (simp add: CHK_ALSA_ERRNO_events_def assms)

lemma set_once_or_twice: "set (if c then [e, e] else [e]) = {e}"
  by simp

lemma malloc_fields [simp]:
  "fst (malloc E n w) =
     (if non_null E (trace w @ [Call_malloc n]) then Some (next_id w) else None)"
  "trace (snd (malloc E n w)) = trace w @ [Call_malloc n]"
  "heap (snd (malloc E n w)) = heap w"
  "elem_ids (snd (malloc E n w)) = elem_ids w"
  "pcm_setup (snd (malloc E n w)) = pcm_setup w"
  "live (snd (malloc E n w)) =
     (case fst (malloc E n w) of None \<Rightarrow> live w | Some a \<Rightarrow> Mem a # live w)"
  "next_id (snd (malloc E n w)) =
     (case fst (malloc E n w) of None \<Rightarrow> next_id w | Some a \<Rightarrow> next_id w + 1)"
  "mHasCtrlVolume (snd (malloc E n w)) = mHasCtrlVolume w"
  by (simp_all add: malloc_def allocate_def Let_def)

lemma free_fields [simp]:
  "trace (free p w) = trace w @ [Call_free p]"
  "heap (free p w) = (case p of None \<Rightarrow> heap w | Some a \<Rightarrow> (heap w)(a := None))"
  "elem_ids (free p w) = elem_ids w"
  "pcm_setup (free p w) = pcm_setup w"
  "live (free p w) = (case p of None \<Rightarrow> live w | Some a \<Rightarrow> remove1 (Mem a) (live w))"
  "next_id (free p w) = next_id w"
  "mHasCtrlVolume (free p w) = mHasCtrlVolume w"
  by (simp_all add: free_def release_def Let_def split: option.splits)

lemma aacDecoder_Fill_fields [simp]:
  "fst (aacDecoder_Fill E d b n m w) = ret E (trace w @ [Call_aacDecoder_Fill d b n m])"
  "trace (snd (aacDecoder_Fill E d b n m w)) = trace w @ [Call_aacDecoder_Fill d b n m]"
  "heap (snd (aacDecoder_Fill E d b n m w)) = heap w"
  "elem_ids (snd (aacDecoder_Fill E d b n m w)) = elem_ids w"
  "pcm_setup (snd (aacDecoder_Fill E d b n m w)) = pcm_setup w"
  "live (snd (aacDecoder_Fill E d b n m w)) = live w"
  "next_id (snd (aacDecoder_Fill E d b n m w)) = next_id w"
  "mHasCtrlVolume (snd (aacDecoder_Fill E d b n m w)) = mHasCtrlVolume w"
  by (simp_all add: aacDecoder_Fill_def Let_def)

lemma aacDecoder_DecodeFrame_fields [simp]:
  "fst (aacDecoder_DecodeFrame E d b n m w) =
     ret E (trace w @ [Call_aacDecoder_DecodeFrame d b n m])"
  "trace (snd (aacDecoder_DecodeFrame E d b n m w)) =
     trace w @ [Call_aacDecoder_DecodeFrame d b n m]"
  "heap (snd (aacDecoder_DecodeFrame E d b n m w)) = heap w"
  "elem_ids (snd (aacDecoder_DecodeFrame E d b n m w)) = elem_ids w"
  "pcm_setup (snd (aacDecoder_DecodeFrame E d b n m w)) = pcm_setup w"
  "live (snd (aacDecoder_DecodeFrame E d b n m w)) = live w"
  "next_id (snd (aacDecoder_DecodeFrame E d b n m w)) = next_id w"
  "mHasCtrlVolume (snd (aacDecoder_DecodeFrame E d b n m w)) = mHasCtrlVolume w"
  by (simp_all add: aacDecoder_DecodeFrame_def Let_def)

lemma snd_pcm_writei_fields [simp]:
  "fst (snd_pcm_writei E p b n w) = ret E (trace w @ [Call_snd_pcm_writei p b n])"
  "trace (snd (snd_pcm_writei E p b n w)) = trace w @ [Call_snd_pcm_writei p b n]"
  "heap (snd (snd_pcm_writei E p b n w)) = heap w"
  "elem_ids (snd (snd_pcm_writei E p b n w)) = elem_ids w"
  "pcm_setup (snd (snd_pcm_writei E p b n w)) = pcm_setup w"
  "live (snd (snd_pcm_writei E p b n w)) = live w"
  "next_id (snd (snd_pcm_writei E p b n w)) = next_id w"
  "mHasCtrlVolume (snd (snd_pcm_writei E p b n w)) = mHasCtrlVolume w"
  by (simp_all add: snd_pcm_writei_def Let_def)

lemma snd_pcm_recover_fields [simp]:
  "fst (snd_pcm_recover E p e s w) = ret E (trace w @ [Call_snd_pcm_recover p e s])"
  "trace (snd (snd_pcm_recover E p e s w)) = trace w @ [Call_snd_pcm_recover p e s]"
  "heap (snd (snd_pcm_recover E p e s w)) = heap w"
  "elem_ids (snd (snd_pcm_recover E p e s w)) = elem_ids w"
  "pcm_setup (snd (snd_pcm_recover E p e s w)) = pcm_setup w"
  "live (snd (snd_pcm_recover E p e s w)) = live w"
  "next_id (snd (snd_pcm_recover E p e s w)) = next_id w"
  "mHasCtrlVolume (snd (snd_pcm_recover E p e s w)) = mHasCtrlVolume w"
  by (simp_all add: snd_pcm_recover_def Let_def)

lemma snd_ctl_convert_from_dB_fields [simp]:
  "fst (snd_ctl_convert_from_dB E c i g x w) =
     ret E (trace w @ [Call_snd_ctl_convert_from_dB c i g x])"
  "fst (snd (snd_ctl_convert_from_dB E c i g x w)) =
     raw_out E (trace w @ [Call_snd_ctl_convert_from_dB c i g x])"
  "trace (snd (snd (snd_ctl_convert_from_dB E c i g x w))) =
     trace w @ [Call_snd_ctl_convert_from_dB c i g x]"
  "heap (snd (snd (snd_ctl_convert_from_dB E c i g x w))) = heap w"
  "elem_ids (snd (snd (snd_ctl_convert_from_dB E c i g x w))) = elem_ids w"
  "pcm_setup (snd (snd (snd_ctl_convert_from_dB E c i g x w))) = pcm_setup w"
  "live (snd (snd (snd_ctl_convert_from_dB E c i g x w))) = live w"
  "next_id (snd (snd (snd_ctl_convert_from_dB E c i g x w))) = next_id w"
  "mHasCtrlVolume (snd (snd (snd_ctl_convert_from_dB E c i g x w))) = mHasCtrlVolume w"
  by (simp_all add: snd_ctl_convert_from_dB_def Let_def)

lemma snd_ctl_elem_write_fields [simp]:
  "fst (snd_ctl_elem_write E c v w) = ret E (trace w @ [Call_snd_ctl_elem_write c v])"
  "trace (snd (snd (snd_ctl_elem_write E c v w))) = trace w @ [Call_snd_ctl_elem_write c v]"
  "heap (snd (snd (snd_ctl_elem_write E c v w))) = heap w"
  "elem_ids (snd (snd (snd_ctl_elem_write E c v w))) = elem_ids w"
  "pcm_setup (snd (snd (snd_ctl_elem_write E c v w))) = pcm_setup w"
  "live (snd (snd (snd_ctl_elem_write E c v w))) = live w"
  "next_id (snd (snd (snd_ctl_elem_write E c v w))) = next_id w"
  "mHasCtrlVolume (snd (snd (snd_ctl_elem_write E c v w))) = mHasCtrlVolume w"
  by (simp_all add: snd_ctl_elem_write_def Let_def)

lemma CHK_snd_ctl_convert_from_dB [simp]:
  "trace (snd (CHK_ALSA_ERRNO (snd_ctl_convert_from_dB E c i g x) msg lg w)) =
     trace w @ CHK_ALSA_ERRNO_events E (Call_snd_ctl_convert_from_dB c i g x) msg lg (trace w)"
  "fst (CHK_ALSA_ERRNO (snd_ctl_convert_from_dB E c i g x) msg lg w) =
     raw_out E (trace w @
       (if ret E (trace w @ [Call_snd_ctl_convert_from_dB c i g x]) < 0
        then [Call_snd_ctl_convert_from_dB c i g x, Call_snd_ctl_convert_from_dB c i g x]
        else [Call_snd_ctl_convert_from_dB c i g x]))"
  by (simp_all add: CHK_ALSA_ERRNO_trace [where E = E]
      CHK_ALSA_ERRNO_out [where E = E and ev = "Call_snd_ctl_convert_from_dB c i g x"])

lemma CHK_snd_ctl_elem_write [simp]:
  "trace (snd (CHK_ALSA_ERRNO (snd_ctl_elem_write E c v) msg lg w)) =
     trace w @ CHK_ALSA_ERRNO_events E (Call_snd_ctl_elem_write c v) msg lg (trace w)"
  by (simp add: CHK_ALSA_ERRNO_trace [where E = E])

lemma elem_id_at_same: "elem_ids w' = elem_ids w \<Longrightarrow> elem_id_at w' p = elem_id_at w p"
  by (cases p) (simp_all add: elem_id_at_def)

lemma elem_id_at_after_convert [simp]:
  "elem_id_at (snd (CHK_ALSA_ERRNO (snd_ctl_convert_from_dB E c i g x) m l w)) p =
   elem_id_at w p"
  by (rule elem_id_at_same) simp

lemma aacDecoder_Close_fields [simp]:
  "trace (aacDecoder_Close d w) = trace w @ [Call_aacDecoder_Close d]"
  "heap (aacDecoder_Close d w) = heap w"
  by (simp_all add: aacDecoder_Close_def release_def Let_def split: option.splits)

lemma snd_pcm_drain_fields [simp]:
  "fst (snd_pcm_drain E p w) = ret E (trace w @ [Call_snd_pcm_drain p])"
  "trace (snd (snd (snd_pcm_drain E p w))) = trace w @ [Call_snd_pcm_drain p]"
  "heap (snd (snd (snd_pcm_drain E p w))) = heap w"
  "live (snd (snd (snd_pcm_drain E p w))) = live w"
  by (simp_all add: snd_pcm_drain_def Let_def)

lemma snd_pcm_close_fields [simp]:
  "fst (snd_pcm_close E p w) = ret E (trace w @ [Call_snd_pcm_close p])"
  "trace (snd (snd (snd_pcm_close E p w))) = trace w @ [Call_snd_pcm_close p]"
  "heap (snd (snd (snd_pcm_close E p w))) = heap w"
  by (simp_all add: snd_pcm_close_def release_def Let_def split: option.splits)

lemma snd_ctl_close_fields [simp]:
  "fst (snd_ctl_close E c w) = ret E (trace w @ [Call_snd_ctl_close c])"
  "trace (snd (snd (snd_ctl_close E c w))) = trace w @ [Call_snd_ctl_close c]"
  "heap (snd (snd (snd_ctl_close E c w))) = heap w"
  by (simp_all add: snd_ctl_close_def release_def Let_def split: option.splits)

lemma CHK_teardown [simp]:
  "trace (snd (CHK_ALSA_ERRNO (snd_pcm_drain E p) msg lg w)) =
     trace w @ CHK_ALSA_ERRNO_events E (Call_snd_pcm_drain p) msg lg (trace w)"
  "trace (snd (CHK_ALSA_ERRNO (snd_pcm_close E p) msg lg w)) =
     trace w @ CHK_ALSA_ERRNO_events E (Call_snd_pcm_close p) msg lg (trace w)"
  "trace (snd (CHK_ALSA_ERRNO (snd_ctl_close E c) msg lg w)) =
     trace w @ CHK_ALSA_ERRNO_events E (Call_snd_ctl_close c) msg lg (trace w)"
  by (simp_all add: CHK_ALSA_ERRNO_trace [where E = E])

lemma new_events_append: "trace w' = trace w @ evs \<Longrightarrow> new_events w w' = evs"
  by (simp add: new_events_def)

lemma filter_if: "filter P (if c then xs else ys) = (if c then filter P xs else filter P ys)"
  by simp

lemma filter_if_single:
  "filter P (if c then [e] else []) = (if c \<and> P e then [e] else [])"
  by simp

subsection \<open>The two stages of a render call\<close>

lemma decode_stage_unchanged [simp]:
  "heap (snd (decode_stage E r data n w)) = heap w"
  "elem_ids (snd (decode_stage E r data n w)) = elem_ids w"
  "pcm_setup (snd (decode_stage E r data n w)) = pcm_setup w"
  "mHasCtrlVolume (snd (decode_stage E r data n w)) = mHasCtrlVolume w"
  "live (snd (decode_stage E r data n w)) =
     (case fst (decode_stage E r data n w) of None \<Rightarrow> live w | Some a \<Rightarrow> Mem a # live w)"
  "next_id (snd (decode_stage E r data n w)) =
     (case fst (decode_stage E r data n w) of None \<Rightarrow> next_id w | Some a \<Rightarrow> next_id w + 1)"
  by (simp_all add: decode_stage_def Let_def split_def)

lemma decode_stage_buffer:
  "fst (decode_stage E r data n w) = Some a \<Longrightarrow> a = next_id w"
  by (simp add: decode_stage_def Let_def split_def split: if_splits)

lemma decode_stage_extends:
  "trace (snd (decode_stage E r data n w)) = trace w @ new_events w (snd (decode_stage E r data n w))"
  by (simp add: decode_stage_def Let_def split_def new_events_def)

lemma decode_stage_events:
  "filter is_snd_pcm_writei (new_events w (snd (decode_stage E r data n w))) = []"
  "filter is_snd_pcm_recover (new_events w (snd (decode_stage E r data n w))) = []"
  "filter is_free (new_events w (snd (decode_stage E r data n w))) = []"
  "filter is_malloc (new_events w (snd (decode_stage E r data n w))) = [Call_malloc (4 * 480)]"
  "filter is_decoder_call (new_events w (snd (decode_stage E r data n w))) =
     [Call_aacDecoder_Fill (audio_decoder r) data (uint_of_int n) (uint_of_int n),
      Call_aacDecoder_DecodeFrame (audio_decoder r) (fst (decode_stage E r data n w)) (4 * 480) 0]"
  by (simp_all add: decode_stage_def Let_def split_def new_events_def filter_if)

lemma write_stage_unchanged [simp]:
  "heap (write_stage E r buf w) = heap w"
  "elem_ids (write_stage E r buf w) = elem_ids w"
  "pcm_setup (write_stage E r buf w) = pcm_setup w"
  "mHasCtrlVolume (write_stage E r buf w) = mHasCtrlVolume w"
  "live (write_stage E r buf w) = live w"
  "next_id (write_stage E r buf w) = next_id w"
  by (simp_all add: write_stage_def Let_def split_def)

lemma write_stage_extends:
  "trace (write_stage E r buf w) = trace w @ new_events w (write_stage E r buf w)"
  by (simp add: write_stage_def Let_def split_def new_events_def)

lemma write_stage_events:
  "filter is_snd_pcm_writei (new_events w (write_stage E r buf w)) =
     [Call_snd_pcm_writei (audio_renderer r) buf
        (snd_pcm_bytes_to_frames w (audio_renderer r) (4 * 480))]"
  "filter is_free (new_events w (write_stage E r buf w)) = []"
  "filter is_malloc (new_events w (write_stage E r buf w)) = []"
  "filter is_decoder_call (new_events w (write_stage E r buf w)) = []"
  by (simp_all add: write_stage_def Let_def split_def new_events_def filter_if)

lemma render_buffer_result:
  assumes "data_len \<noteq> 0" and "heap w h = Some r"
  shows "audio_renderer_alsa_render_buffer E (Some h) ntp data data_len pts w =
           Inr (free (fst (decode_stage E r data data_len w))
                  (write_stage E r (fst (decode_stage E r data data_len w))
                     (snd (decode_stage E r data data_len w))))"
  using assms by (simp add: audio_renderer_alsa_render_buffer_def deref_def split_def Let_def)

lemma render_buffer_new_events:
  "new_events w (free buf (write_stage E r buf (snd (decode_stage E r data n w)))) =
     new_events w (snd (decode_stage E r data n w))
     @ new_events (snd (decode_stage E r data n w)) (write_stage E r buf (snd (decode_stage E r data n w)))
     @ [Call_free buf]"
proof -
  let ?wd = "snd (decode_stage E r data n w)"
  let ?ww = "write_stage E r buf ?wd"
  have a: "trace ?ww = trace ?wd @ new_events ?wd ?ww"
    by (rule write_stage_extends)
  have b: "trace ?wd = trace w @ new_events w ?wd"
    by (rule decode_stage_extends)
  have "trace (free buf ?ww) = trace ?ww @ [Call_free buf]"
    by simp
  also have "\<dots> = trace w @ (new_events w ?wd @ new_events ?wd ?ww @ [Call_free buf])"
    by (simp only: a b append_assoc)
  finally show ?thesis
    by (rule new_events_append)
qed

lemma bytes_to_frames_playback:
  "pcm_setup w p = Some playback_params \<Longrightarrow> snd_pcm_bytes_to_frames w (Some p) n = n * 8 div 32"
  by (simp add: snd_pcm_bytes_to_frames_def frame_bits_def playback_params_def)

lemma bytes_to_frames_same:
  "pcm_setup w' = pcm_setup w \<Longrightarrow>
   snd_pcm_bytes_to_frames w' p n = snd_pcm_bytes_to_frames w p n"
  by (cases p) (simp_all add: snd_pcm_bytes_to_frames_def)

lemma render_buffer_writes:
  assumes "data_len \<noteq> 0" and "heap w h = Some r" and "h < next_id w"
  shows "\<exists>w'. audio_renderer_alsa_render_buffer E (Some h) ntp data data_len pts w = Inr w'
           \<and> filter is_snd_pcm_writei (new_events w w') =
               [Call_snd_pcm_writei (audio_renderer r) (fst (decode_stage E r data data_len w))
                  (snd_pcm_bytes_to_frames w (audio_renderer r) (4 * 480))]
           \<and> heap w' h = Some r \<and> h < next_id w' \<and> live w' = live w
           \<and> pcm_setup w' = pcm_setup w \<and> elem_ids w' = elem_ids w
           \<and> mHasCtrlVolume w' = mHasCtrlVolume w"
proof -
  let ?buf = "fst (decode_stage E r data data_len w)"
  let ?wd = "snd (decode_stage E r data data_len w)"
  let ?w' = "free ?buf (write_stage E r ?buf ?wd)"
  have res: "audio_renderer_alsa_render_buffer E (Some h) ntp data data_len pts w = Inr ?w'"
    using assms(1,2) by (rule render_buffer_result)
  have "snd_pcm_bytes_to_frames ?wd (audio_renderer r) (4 * 480) =
          snd_pcm_bytes_to_frames w (audio_renderer r) (4 * 480)"
    by (rule bytes_to_frames_same) simp
  then have wr: "filter is_snd_pcm_writei (new_events w ?w') =
      [Call_snd_pcm_writei (audio_renderer r) ?buf
         (snd_pcm_bytes_to_frames w (audio_renderer r) (4 * 480))]"
    by (simp add: render_buffer_new_events decode_stage_events write_stage_events)
  have hp: "heap ?w' h = Some r"
    using assms(2,3) by (auto split: option.splits dest: decode_stage_buffer)
  have nx: "h < next_id ?w'"
    using assms(3) by (simp split: option.splits)
  have frame: "live ?w' = live w" "pcm_setup ?w' = pcm_setup w"
      "elem_ids ?w' = elem_ids w" "mHasCtrlVolume ?w' = mHasCtrlVolume w"
    by (simp_all split: option.splits)
  show ?thesis
    using res wr hp nx frame by blast
qed

text \<open>
  C1. Every render call with a non-empty buffer on a renderer whose PCM was set up by
  the constructor makes exactly one device write attempt: 480 frames (4 bytes each, the
  1920 bytes of the one buffer that was allocated, handed to the decoder and freed
  afterwards). The environment is arbitrary, so this holds whatever the fill and the
  decode steps return.
\<close>

theorem render_buffer_one_write:
  assumes "data_len \<noteq> 0" and "heap w h = Some r"
    and "audio_renderer r = Some p" and "pcm_setup w p = Some playback_params"
  shows "\<exists>w' buf. audio_renderer_alsa_render_buffer E (Some h) ntp data data_len pts w = Inr w'
           \<and> filter is_snd_pcm_writei (new_events w w') = [Call_snd_pcm_writei (Some p) buf 480]
           \<and> filter is_malloc (new_events w w') = [Call_malloc (4 * 480)]
           \<and> filter is_decoder_call (new_events w w') =
               [Call_aacDecoder_Fill (audio_decoder r) data (uint_of_int data_len)
                  (uint_of_int data_len),
                Call_aacDecoder_DecodeFrame (audio_decoder r) buf (4 * 480) 0]
           \<and> filter is_free (new_events w w') = [Call_free buf]
           \<and> 480 * (int (frame_bits playback_params) div 8) = 4 * 480"
proof -
  let ?buf = "fst (decode_stage E r data data_len w)"
  let ?wd = "snd (decode_stage E r data data_len w)"
  let ?w' = "free ?buf (write_stage E r ?buf ?wd)"
  have res: "audio_renderer_alsa_render_buffer E (Some h) ntp data data_len pts w = Inr ?w'"
    using assms(1,2) by (rule render_buffer_result)
  have "snd_pcm_bytes_to_frames ?wd (Some p) (4 * 480) = 480"
    using assms(4) by (simp add: bytes_to_frames_playback)
  then have wr: "filter is_snd_pcm_writei (new_events w ?w') = [Call_snd_pcm_writei (Some p) ?buf 480]"
    using assms(3)
    by (simp add: render_buffer_new_events decode_stage_events write_stage_events)
  have ma: "filter is_malloc (new_events w ?w') = [Call_malloc (4 * 480)]"
    by (simp add: render_buffer_new_events decode_stage_events write_stage_events)
  have de: "filter is_decoder_call (new_events w ?w') =
               [Call_aacDecoder_Fill (audio_decoder r) data (uint_of_int data_len)
                  (uint_of_int data_len),
                Call_aacDecoder_DecodeFrame (audio_decoder r) ?buf (4 * 480) 0]"
    by (simp add: render_buffer_new_events decode_stage_events write_stage_events)
  have fr: "filter is_free (new_events w ?w') = [Call_free ?buf]"
    by (simp add: render_buffer_new_events decode_stage_events write_stage_events)
  have sz: "480 * (int (frame_bits playback_params) div 8) = 4 * 480"
    by (simp add: frame_bits_def playback_params_def)
  show ?thesis
    using res wr ma de fr sz by blast
qed

text \<open>
  C4. When the device write returns a negative value, the call makes exactly one
  \<open>snd_pcm_recover\<close> call, with that error code. If the recovery fails as well, the
  only thing that follows is one error log and the release of the PCM frame: the call
  returns normally, the renderer structure and its handles are as before, and the next
  render call on the handle returns normally again and makes its write attempt.
\<close>

theorem render_buffer_recovery:
  assumes "data_len \<noteq> 0" and "heap w h = Some r" and "h < next_id w"
    and "decode_stage E r data data_len w = (buf, wd)"
    and "snd_pcm_writei E (audio_renderer r) buf
           (snd_pcm_bytes_to_frames wd (audio_renderer r) (4 * 480)) wd = (played, ww)"
    and "played < 0"
    and "snd_pcm_recover E (audio_renderer r) (int_of_long played) 0 ww = (recovered, wr)"
  shows "\<exists>w'. audio_renderer_alsa_render_buffer E (Some h) ntp data data_len pts w = Inr w'
           \<and> filter is_snd_pcm_recover (new_events w w') =
               [Call_snd_pcm_recover (audio_renderer r) (int_of_long played) 0]
           \<and> (recovered < 0 \<longrightarrow>
                 trace w' = trace wr @
                   [Call_logger_log (base_logger r) LOGGER_ERR
                      (ArgStrerror (int_of_long recovered)) [],
                    Call_free buf])
           \<and> heap w' h = Some r \<and> live w' = live w \<and> pcm_setup w' = pcm_setup w
           \<and> elem_ids w' = elem_ids w \<and> mHasCtrlVolume w' = mHasCtrlVolume w
           \<and> (\<forall>E' ntp' data' len' pts'. len' \<noteq> 0 \<longrightarrow>
                 (\<exists>w''. audio_renderer_alsa_render_buffer E' (Some h) ntp' data' len' pts' w'
                          = Inr w''
                    \<and> length (filter is_snd_pcm_writei (new_events w' w'')) = 1))"
proof -
  let ?w' = "free buf (write_stage E r buf wd)"
  have dec: "fst (decode_stage E r data data_len w) = buf"
      "snd (decode_stage E r data data_len w) = wd"
    using assms(4) by simp_all
  have res: "audio_renderer_alsa_render_buffer E (Some h) ntp data data_len pts w = Inr ?w'"
    using render_buffer_result [OF assms(1,2), of E ntp data pts] by (simp add: dec)
  have wri: "ret E (trace wd @ [Call_snd_pcm_writei (audio_renderer r) buf
               (snd_pcm_bytes_to_frames wd (audio_renderer r) (4 * 480))]) = played"
      "trace ww = trace wd @ [Call_snd_pcm_writei (audio_renderer r) buf
               (snd_pcm_bytes_to_frames wd (audio_renderer r) (4 * 480))]"
    using assms(5) by (auto simp: snd_pcm_writei_def Let_def)
  have rec: "ret E (trace ww @ [Call_snd_pcm_recover (audio_renderer r) (int_of_long played) 0])
               = recovered"
      "trace wr = trace ww @ [Call_snd_pcm_recover (audio_renderer r) (int_of_long played) 0]"
    using assms(7) by (auto simp: snd_pcm_recover_def Let_def)
  have wst: "trace (write_stage E r buf wd) =
      trace wr @
      (if recovered < 0
       then [Call_logger_log (base_logger r) LOGGER_ERR (ArgStrerror (int_of_long recovered)) []]
       else []) @
      (if recovered > 0 \<and> recovered < snd_pcm_bytes_to_frames wd (audio_renderer r) (4 * 480)
       then [Call_logger_log (base_logger r) LOGGER_ERR (ArgStr partial_write_fmt)
               [ArgInt (snd_pcm_bytes_to_frames wd (audio_renderer r) (4 * 480)),
                ArgInt recovered]]
       else [])"
    using assms(6) wri rec by (simp add: write_stage_def Let_def split_def)
  have ev: "new_events wd (write_stage E r buf wd) =
      [Call_snd_pcm_writei (audio_renderer r) buf
         (snd_pcm_bytes_to_frames wd (audio_renderer r) (4 * 480)),
       Call_snd_pcm_recover (audio_renderer r) (int_of_long played) 0] @
      (if recovered < 0
       then [Call_logger_log (base_logger r) LOGGER_ERR (ArgStrerror (int_of_long recovered)) []]
       else []) @
      (if recovered > 0 \<and> recovered < snd_pcm_bytes_to_frames wd (audio_renderer r) (4 * 480)
       then [Call_logger_log (base_logger r) LOGGER_ERR (ArgStr partial_write_fmt)
               [ArgInt (snd_pcm_bytes_to_frames wd (audio_renderer r) (4 * 480)),
                ArgInt recovered]]
       else [])"
    by (rule new_events_append) (simp add: wst rec wri)
  have one: "filter is_snd_pcm_recover (new_events w ?w') =
      [Call_snd_pcm_recover (audio_renderer r) (int_of_long played) 0]"
    using render_buffer_new_events [of w buf E r data data_len] decode_stage_events(2) [of w E r data data_len]
    by (simp add: dec ev)
  have logged: "recovered < 0 \<longrightarrow>
      trace ?w' = trace wr @
        [Call_logger_log (base_logger r) LOGGER_ERR (ArgStrerror (int_of_long recovered)) [],
         Call_free buf]"
    by (simp add: wst)
  from render_buffer_writes [OF assms(1,2,3), of E ntp data pts]
  have frame: "heap ?w' h = Some r" "h < next_id ?w'" "live ?w' = live w"
      "pcm_setup ?w' = pcm_setup w" "elem_ids ?w' = elem_ids w"
      "mHasCtrlVolume ?w' = mHasCtrlVolume w"
    using res by auto
  have again: "\<forall>E' ntp' data' len' pts'. len' \<noteq> 0 \<longrightarrow>
      (\<exists>w''. audio_renderer_alsa_render_buffer E' (Some h) ntp' data' len' pts' ?w' = Inr w''
         \<and> length (filter is_snd_pcm_writei (new_events ?w' w'')) = 1)"
  proof (intro allI impI)
    fix E' ntp' data' pts' and len' :: int
    assume "len' \<noteq> 0"
    from render_buffer_writes [OF this frame(1,2), of E' ntp' data' pts']
    obtain w'' where
      "audio_renderer_alsa_render_buffer E' (Some h) ntp' data' len' pts' ?w' = Inr w''"
      "filter is_snd_pcm_writei (new_events ?w' w'') =
         [Call_snd_pcm_writei (audio_renderer r) (fst (decode_stage E' r data' len' ?w'))
            (snd_pcm_bytes_to_frames ?w' (audio_renderer r) (4 * 480))]"
      by blast
    then show "\<exists>w''. audio_renderer_alsa_render_buffer E' (Some h) ntp' data' len' pts' ?w' = Inr w''
         \<and> length (filter is_snd_pcm_writei (new_events ?w' w'')) = 1"
      by (intro exI [of _ w'']) (simp del: free_fields write_stage_unchanged)
  qed
  show ?thesis
    using res one logged frame again by blast
qed

text \<open>
  C5. A render call with a zero-length buffer returns at once: the world, and with it
  the trace of calls (no fill, no decode, no write), is the one it was given.
\<close>

theorem render_buffer_zero_length:
  "audio_renderer_alsa_render_buffer E renderer ntp data 0 pts w = Inr w"
  by (simp add: audio_renderer_alsa_render_buffer_def)

text \<open>
  C9. The result of a render call does not depend on the \<open>ntp\<close> and \<open>pts\<close>
  arguments.
\<close>

theorem render_buffer_ignores_ntp_pts:
  "audio_renderer_alsa_render_buffer E renderer ntp data data_len pts w =
   audio_renderer_alsa_render_buffer E renderer ntp' data data_len pts' w"
  by (simp add: audio_renderer_alsa_render_buffer_def)

subsection \<open>Volume\<close>

lemma trunc_toward_zero_of_int [simp]: "trunc_toward_zero (of_int z) = z"
  by (simp add: trunc_toward_zero_def)

lemma long_of_float_truncf [simp]: "long_of_float E (truncf v) = long_of_float E v"
  by (cases v) (simp_all add: long_of_float_def truncf_def)

lemma truncf_same_call:
  "audio_renderer_alsa_set_volume E renderer (truncf volume) w =
   audio_renderer_alsa_set_volume E renderer volume w"
  by (cases "deref w renderer") (simp_all add: audio_renderer_alsa_set_volume_def)

lemma set_volume_trace:
  assumes "mHasCtrlVolume w" and "heap w h = Some r"
    and "in_long E (trunc_toward_zero x)" and "in_long E (trunc_toward_zero x * 200)"
  shows "\<exists>w'. audio_renderer_alsa_set_volume E (Some h) (Finite x) w = Inr w'
     \<and> (let convert = Call_snd_ctl_convert_from_dB (ctl r) (elem_id_at w (ctl_elem_id r))
                         (trunc_toward_zero x * 200) 0;
             conversion = CHK_ALSA_ERRNO_events E convert ''Convert'' (base_logger r) (trace w);
             raw = raw_out E (trace w @
                     (if ret E (trace w @ [convert]) < 0 then [convert, convert]
                      else [convert]));
             write = Call_snd_ctl_elem_write (ctl r)
                       \<lparr>value_id = elem_id_at w (ctl_elem_id r),
                        value_integer = (\<lambda>_. 0)(0 := raw, 1 := raw)\<rparr>
         in trace w' = trace w @ conversion @
              CHK_ALSA_ERRNO_events E write ''Set volume'' (base_logger r)
                (trace w @ conversion))
     \<and> heap w' = heap w \<and> elem_ids w' = elem_ids w \<and> pcm_setup w' = pcm_setup w
     \<and> live w' = live w \<and> next_id w' = next_id w \<and> mHasCtrlVolume w' = mHasCtrlVolume w"
  using assms
  by (simp add: audio_renderer_alsa_set_volume_def deref_def long_of_float_def long_mult_def
      Let_def split_def snd_ctl_elem_value_set_id_def snd_ctl_elem_value_set_integer_def)

text \<open>
  C7. With volume control enabled, a call whose conversion and product are defined
  asks the device to convert the truncated input times 200 and writes an element value
  that carries the element id and the one converted value at the integer positions 0
  and 1 (and at no other). Both calls are arguments of \<open>CHK_ALSA_ERRNO\<close>: a call that
  returns a negative value is made a second time with the same arguments, and one log
  entry with the result of the second call follows. The value written is the one the
  last conversion call left. The call returns normally in every case and changes
  nothing but the trace.
\<close>

theorem set_volume_writes_both_channels:
  assumes "mHasCtrlVolume w" and "heap w h = Some r"
    and "in_long E (trunc_toward_zero x)" and "in_long E (trunc_toward_zero x * 200)"
  shows "\<exists>w'. audio_renderer_alsa_set_volume E (Some h) (Finite x) w = Inr w'
     \<and> (let convert = Call_snd_ctl_convert_from_dB (ctl r) (elem_id_at w (ctl_elem_id r))
                         (trunc_toward_zero x * 200) 0;
             conversion =
               (if ret E (trace w @ [convert]) < 0
                then [convert, convert,
                      Call_logger_log (base_logger r) LOGGER_ERR (ArgStr ''%s: %s'')
                        [ArgStr ''Convert'', ArgStrerror (ret E (trace w @ [convert, convert]))]]
                else [convert]);
             raw = raw_out E (trace w @
                     (if ret E (trace w @ [convert]) < 0 then [convert, convert]
                      else [convert]));
             write = Call_snd_ctl_elem_write (ctl r)
                       \<lparr>value_id = elem_id_at w (ctl_elem_id r),
                        value_integer = (\<lambda>_. 0)(0 := raw, 1 := raw)\<rparr>;
             writing =
               (if ret E (trace w @ conversion @ [write]) < 0
                then [write, write,
                      Call_logger_log (base_logger r) LOGGER_ERR (ArgStr ''%s: %s'')
                        [ArgStr ''Set volume'',
                         ArgStrerror (ret E (trace w @ conversion @ [write, write]))]]
                else [write])
         in trace w' = trace w @ conversion @ writing)
     \<and> heap w' = heap w \<and> elem_ids w' = elem_ids w \<and> pcm_setup w' = pcm_setup w
     \<and> live w' = live w \<and> next_id w' = next_id w \<and> mHasCtrlVolume w' = mHasCtrlVolume w"
  using set_volume_trace [OF assms]
  by (simp add: Let_def CHK_ALSA_ERRNO_events_def cong: if_cong)

text \<open>
  C10. The conversion \<open>(long) volume\<close> discards the fraction before the product with
  200 is formed. A call with \<open>volume\<close> and a call with \<open>truncf volume\<close> are the same
  call, for every value of \<open>volume\<close>. And with volume control enabled, where the
  conversion and the product are defined, that call does submit the truncated value
  times 200 to the conversion, in every conversion call it makes, and does write: every
  write carries the value the last conversion call left, at the positions 0 and 1.
\<close>

theorem set_volume_truncates:
  "audio_renderer_alsa_set_volume E renderer volume w =
     audio_renderer_alsa_set_volume E renderer (truncf volume) w
   \<and> (mHasCtrlVolume w \<and> heap w h = Some r
        \<and> in_long E (trunc_toward_zero x) \<and> in_long E (trunc_toward_zero x * 200) \<longrightarrow>
      (let convert = Call_snd_ctl_convert_from_dB (ctl r) (elem_id_at w (ctl_elem_id r))
                       (trunc_toward_zero x * 200) 0;
           raw = raw_out E (trace w @
                   (if ret E (trace w @ [convert]) < 0 then [convert, convert]
                    else [convert]));
           write = Call_snd_ctl_elem_write (ctl r)
                     \<lparr>value_id = elem_id_at w (ctl_elem_id r),
                      value_integer = (\<lambda>_. 0)(0 := raw, 1 := raw)\<rparr>
       in \<exists>w'. audio_renderer_alsa_set_volume E (Some h) (Finite x) w = Inr w'
            \<and> audio_renderer_alsa_set_volume E (Some h) (truncf (Finite x)) w = Inr w'
            \<and> set (filter is_snd_ctl_convert_from_dB (new_events w w')) = {convert}
            \<and> set (filter is_snd_ctl_elem_write (new_events w w')) = {write}))"
proof (intro conjI impI)
  show "audio_renderer_alsa_set_volume E renderer volume w =
     audio_renderer_alsa_set_volume E renderer (truncf volume) w"
    by (simp add: truncf_same_call)
next
  assume a: "mHasCtrlVolume w \<and> heap w h = Some r
        \<and> in_long E (trunc_toward_zero x) \<and> in_long E (trunc_toward_zero x * 200)"
  define convert where "convert = Call_snd_ctl_convert_from_dB (ctl r)
      (elem_id_at w (ctl_elem_id r)) (trunc_toward_zero x * 200) 0"
  define raw where "raw = raw_out E (trace w @
      (if ret E (trace w @ [convert]) < 0 then [convert, convert] else [convert]))"
  define wr where "wr = Call_snd_ctl_elem_write (ctl r)
      \<lparr>value_id = elem_id_at w (ctl_elem_id r), value_integer = (\<lambda>_. 0)(0 := raw, 1 := raw)\<rparr>"
  from a have "mHasCtrlVolume w" "heap w h = Some r" "in_long E (trunc_toward_zero x)"
    "in_long E (trunc_toward_zero x * 200)" by simp_all
  from set_volume_trace [OF this]
  obtain w' where r: "audio_renderer_alsa_set_volume E (Some h) (Finite x) w = Inr w'"
    and t: "trace w' = trace w @
              CHK_ALSA_ERRNO_events E convert ''Convert'' (base_logger r) (trace w) @
              CHK_ALSA_ERRNO_events E wr ''Set volume'' (base_logger r)
                (trace w @
                 CHK_ALSA_ERRNO_events E convert ''Convert'' (base_logger r) (trace w))"
    unfolding Let_def convert_def raw_def wr_def by blast
  have c: "set (filter is_snd_ctl_convert_from_dB (new_events w w')) = {convert}"
    unfolding new_events_def t
    by (simp add: CHK_ALSA_ERRNO_events_filter set_once_or_twice)
      (simp add: convert_def wr_def set_once_or_twice)
  have v: "set (filter is_snd_ctl_elem_write (new_events w w')) = {wr}"
    unfolding new_events_def t
    by (simp add: CHK_ALSA_ERRNO_events_filter set_once_or_twice)
      (simp add: convert_def wr_def set_once_or_twice)
  show "let convert = Call_snd_ctl_convert_from_dB (ctl r) (elem_id_at w (ctl_elem_id r))
                       (trunc_toward_zero x * 200) 0;
           raw = raw_out E (trace w @
                   (if ret E (trace w @ [convert]) < 0 then [convert, convert]
                    else [convert]));
           write = Call_snd_ctl_elem_write (ctl r)
                     \<lparr>value_id = elem_id_at w (ctl_elem_id r),
                      value_integer = (\<lambda>_. 0)(0 := raw, 1 := raw)\<rparr>
       in \<exists>w'. audio_renderer_alsa_set_volume E (Some h) (Finite x) w = Inr w'
            \<and> audio_renderer_alsa_set_volume E (Some h) (truncf (Finite x)) w = Inr w'
            \<and> set (filter is_snd_ctl_convert_from_dB (new_events w w')) = {convert}
            \<and> set (filter is_snd_ctl_elem_write (new_events w w')) = {write}"
    unfolding Let_def
    using r c v unfolding convert_def raw_def wr_def
    by (intro exI [of _ w']) (simp add: truncf_same_call)
qed

lemma set_volume_disabled:
  "\<not> mHasCtrlVolume w \<Longrightarrow> audio_renderer_alsa_set_volume E renderer volume w = Inr w"
  by (simp add: audio_renderer_alsa_set_volume_def)

subsection \<open>Teardown\<close>

text \<open>
  What the teardown steps do to the live resources: each removes the handle it is given;
  a statement that makes its call twice removes nothing more the second time.
\<close>

lemma release_live:
  assumes "distinct (live w)"
  shows "distinct (live (release x w)) \<and> set (live (release x w)) = set (live w) - {x}"
  using assms by (simp add: release_def)

lemma aacDecoder_Close_live:
  assumes "distinct (live w)"
  shows "distinct (live (aacDecoder_Close d w))
     \<and> set (live (aacDecoder_Close d w)) = set (live w) - AacDecoder ` set_option d"
  using assms by (cases d) (simp_all add: aacDecoder_Close_def release_def Let_def)

lemma snd_pcm_close_live:
  assumes "distinct (live w)"
  shows "distinct (live (snd (snd (snd_pcm_close E p w))))
     \<and> set (live (snd (snd (snd_pcm_close E p w)))) = set (live w) - PcmHandle ` set_option p"
  using assms by (cases p) (simp_all add: snd_pcm_close_def release_def Let_def)

lemma snd_ctl_close_live:
  assumes "distinct (live w)"
  shows "distinct (live (snd (snd (snd_ctl_close E c w))))
     \<and> set (live (snd (snd (snd_ctl_close E c w)))) = set (live w) - CtlHandle ` set_option c"
  using assms by (cases c) (simp_all add: snd_ctl_close_def release_def Let_def)

lemma CHK_ALSA_ERRNO_live:
  assumes "\<And>v. distinct (live v) \<Longrightarrow>
             distinct (live (snd (snd (f v)))) \<and> set (live (snd (snd (f v)))) = set (live v) - S"
    and "distinct (live w)"
  shows "distinct (live (snd (CHK_ALSA_ERRNO f msg lg w)))
     \<and> set (live (snd (CHK_ALSA_ERRNO f msg lg w))) = set (live w) - S"
proof -
  note 1 = assms(1) [OF assms(2)]
  note 2 = assms(1) [of "snd (snd (f w))"]
  show ?thesis
    using 1 2 by (auto simp: CHK_ALSA_ERRNO_def Let_def split_def)
qed

lemma destroy_renderer_live:
  assumes "distinct (live w)"
  shows "distinct (live (audio_renderer_rpi_destroy_renderer E r w))
     \<and> set (live (audio_renderer_rpi_destroy_renderer E r w)) =
         set (live w) - (PcmHandle ` set_option (audio_renderer r)
                          \<union> CtlHandle ` set_option (ctl r))"
proof -
  define w1 where "w1 = snd (CHK_ALSA_ERRNO (snd_pcm_drain E (audio_renderer r))
      ''ALSA PCM drain'' (base_logger r) w)"
  define w2 where "w2 = snd (CHK_ALSA_ERRNO (snd_pcm_close E (audio_renderer r))
      ''ALSA PCM close'' (base_logger r) w1)"
  define w3 where "w3 = snd (CHK_ALSA_ERRNO (snd_ctl_close E (ctl r))
      ''ALSA CTL close'' (base_logger r) w2)"
  have r: "audio_renderer_rpi_destroy_renderer E r w = w3"
    by (simp add: audio_renderer_rpi_destroy_renderer_def split_def w1_def w2_def w3_def)
  have 1: "live w1 = live w"
    by (simp add: w1_def)
  have 2: "distinct (live w2)
      \<and> set (live w2) = set (live w1) - PcmHandle ` set_option (audio_renderer r)"
    unfolding w2_def using assms 1
    by (intro CHK_ALSA_ERRNO_live snd_pcm_close_live) simp_all
  have 3: "distinct (live w3) \<and> set (live w3) = set (live w2) - CtlHandle ` set_option (ctl r)"
    unfolding w3_def using 2
    by (intro CHK_ALSA_ERRNO_live snd_ctl_close_live) simp_all
  show ?thesis
    using 1 2 3 unfolding r by auto
qed

lemma destroy_renderer_trace:
  "trace (audio_renderer_rpi_destroy_renderer E r w) =
     trace w @
     (let drain = CHK_ALSA_ERRNO_events E (Call_snd_pcm_drain (audio_renderer r))
                    ''ALSA PCM drain'' (base_logger r) (trace w);
          pcm = CHK_ALSA_ERRNO_events E (Call_snd_pcm_close (audio_renderer r))
                  ''ALSA PCM close'' (base_logger r) (trace w @ drain);
          ctl = CHK_ALSA_ERRNO_events E (Call_snd_ctl_close (ctl r))
                  ''ALSA CTL close'' (base_logger r) (trace w @ drain @ pcm)
      in drain @ pcm @ ctl)"
  "heap (audio_renderer_rpi_destroy_renderer E r w) = heap w"
  by (simp_all add: audio_renderer_rpi_destroy_renderer_def split_def Let_def)

lemma destroy_valid:
  assumes "heap w a = Some r"
  shows "\<exists>w1. audio_renderer_alsa_destroy E (Some a) w = Inr w1
     \<and> heap w1 = (heap w)(a := None)
     \<and> (let dec = [Call_aacDecoder_Close (audio_decoder r)];
             drain = CHK_ALSA_ERRNO_events E (Call_snd_pcm_drain (audio_renderer r))
                       ''ALSA PCM drain'' (base_logger r) (trace w @ dec);
             pcm = CHK_ALSA_ERRNO_events E (Call_snd_pcm_close (audio_renderer r))
                     ''ALSA PCM close'' (base_logger r) (trace w @ dec @ drain);
             ctl = CHK_ALSA_ERRNO_events E (Call_snd_ctl_close (ctl r))
                     ''ALSA CTL close'' (base_logger r) (trace w @ dec @ drain @ pcm)
         in new_events w w1 = dec @ drain @ pcm @ ctl @ [Call_free (Some a)])
     \<and> (distinct (live w) \<longrightarrow>
          set (live w1) =
            set (live w) - (AacDecoder ` set_option (audio_decoder r)
                             \<union> PcmHandle ` set_option (audio_renderer r)
                             \<union> CtlHandle ` set_option (ctl r) \<union> {Mem a}))"
proof -
  define w1 where "w1 = aacDecoder_Close (audio_decoder r) w"
  define w2 where "w2 = audio_renderer_rpi_destroy_renderer E r w1"
  have r: "audio_renderer_alsa_destroy E (Some a) w = Inr (free (Some a) w2)"
    using assms
    by (simp add: audio_renderer_alsa_destroy_def audio_renderer_alsa_flush_def
        audio_renderer_alsa_destroy_decoder_def w1_def w2_def)
  have h: "heap (free (Some a) w2) = (heap w)(a := None)"
    by (simp add: w2_def w1_def destroy_renderer_trace)
  have t: "trace (free (Some a) w2) = trace w @
     (let dec = [Call_aacDecoder_Close (audio_decoder r)];
          drain = CHK_ALSA_ERRNO_events E (Call_snd_pcm_drain (audio_renderer r))
                    ''ALSA PCM drain'' (base_logger r) (trace w @ dec);
          pcm = CHK_ALSA_ERRNO_events E (Call_snd_pcm_close (audio_renderer r))
                  ''ALSA PCM close'' (base_logger r) (trace w @ dec @ drain);
          ctl = CHK_ALSA_ERRNO_events E (Call_snd_ctl_close (ctl r))
                  ''ALSA CTL close'' (base_logger r) (trace w @ dec @ drain @ pcm)
      in dec @ drain @ pcm @ ctl @ [Call_free (Some a)])"
    by (simp add: w2_def w1_def destroy_renderer_trace Let_def)
  have l: "set (live (free (Some a) w2)) =
            set (live w) - (AacDecoder ` set_option (audio_decoder r)
                             \<union> PcmHandle ` set_option (audio_renderer r)
                             \<union> CtlHandle ` set_option (ctl r) \<union> {Mem a})"
    if d: "distinct (live w)"
  proof -
    note 1 = aacDecoder_Close_live [OF d, of "audio_decoder r", folded w1_def]
    from 1 have "distinct (live w1)" ..
    note 2 = destroy_renderer_live [OF this, of E r, folded w2_def]
    show ?thesis
      using 1 2 by auto
  qed
  show ?thesis
    using r h t l by (simp add: new_events_def Let_def)
qed

text \<open>
  C8, as the code has it. Destroying the null handle returns the world unchanged. The
  only guard is the test for NULL. Destroying a valid handle calls \<open>aacDecoder_Close\<close>,
  \<open>snd_pcm_drain\<close>, \<open>snd_pcm_close\<close>, \<open>snd_ctl_close\<close> (each of the three ALSA calls
  a second time, followed by a log entry, when it returns a negative value) and
  \<open>free\<close>, and nothing else; afterwards the structure is gone from the heap, and the
  decoder, the PCM, the control handle and the block of the structure are no longer
  live. A second destroy of that handle dereferences the freed structure, which is a
  fault and not a no-op.
\<close>

theorem destroy_null_noop_twice_faults:
  "audio_renderer_alsa_destroy E None w = Inr w
   \<and> (heap w a = Some r \<longrightarrow>
        (\<exists>w1. audio_renderer_alsa_destroy E (Some a) w = Inr w1
           \<and> heap w1 = (heap w)(a := None)
           \<and> (let dec = [Call_aacDecoder_Close (audio_decoder r)];
                   drain = CHK_ALSA_ERRNO_events E (Call_snd_pcm_drain (audio_renderer r))
                             ''ALSA PCM drain'' (base_logger r) (trace w @ dec);
                   pcm = CHK_ALSA_ERRNO_events E (Call_snd_pcm_close (audio_renderer r))
                           ''ALSA PCM close'' (base_logger r) (trace w @ dec @ drain);
                   ctl = CHK_ALSA_ERRNO_events E (Call_snd_ctl_close (ctl r))
                           ''ALSA CTL close'' (base_logger r) (trace w @ dec @ drain @ pcm)
               in new_events w w1 = dec @ drain @ pcm @ ctl @ [Call_free (Some a)])
           \<and> (distinct (live w) \<longrightarrow>
                set (live w1) =
                  set (live w) - (AacDecoder ` set_option (audio_decoder r)
                                   \<union> PcmHandle ` set_option (audio_renderer r)
                                   \<union> CtlHandle ` set_option (ctl r) \<union> {Mem a}))
           \<and> audio_renderer_alsa_destroy E' (Some a) w1 = Inl InvalidPointer))"
proof (intro conjI impI)
  show "audio_renderer_alsa_destroy E None w = Inr w"
    by (simp add: audio_renderer_alsa_destroy_def)
next
  assume "heap w a = Some r"
  from destroy_valid [OF this, of E]
  obtain w1 where 1: "audio_renderer_alsa_destroy E (Some a) w = Inr w1"
    and 2: "heap w1 = (heap w)(a := None)"
    and 3: "let dec = [Call_aacDecoder_Close (audio_decoder r)];
                   drain = CHK_ALSA_ERRNO_events E (Call_snd_pcm_drain (audio_renderer r))
                             ''ALSA PCM drain'' (base_logger r) (trace w @ dec);
                   pcm = CHK_ALSA_ERRNO_events E (Call_snd_pcm_close (audio_renderer r))
                           ''ALSA PCM close'' (base_logger r) (trace w @ dec @ drain);
                   ctl = CHK_ALSA_ERRNO_events E (Call_snd_ctl_close (ctl r))
                           ''ALSA CTL close'' (base_logger r) (trace w @ dec @ drain @ pcm)
               in new_events w w1 = dec @ drain @ pcm @ ctl @ [Call_free (Some a)]"
    and 4: "distinct (live w) \<longrightarrow>
                set (live w1) =
                  set (live w) - (AacDecoder ` set_option (audio_decoder r)
                                   \<union> PcmHandle ` set_option (audio_renderer r)
                                   \<union> CtlHandle ` set_option (ctl r) \<union> {Mem a})"
    by blast
  have 5: "audio_renderer_alsa_destroy E' (Some a) w1 = Inl InvalidPointer"
    using 2 by (simp add: audio_renderer_alsa_destroy_def)
  show "\<exists>w1. audio_renderer_alsa_destroy E (Some a) w = Inr w1
           \<and> heap w1 = (heap w)(a := None)
           \<and> (let dec = [Call_aacDecoder_Close (audio_decoder r)];
                   drain = CHK_ALSA_ERRNO_events E (Call_snd_pcm_drain (audio_renderer r))
                             ''ALSA PCM drain'' (base_logger r) (trace w @ dec);
                   pcm = CHK_ALSA_ERRNO_events E (Call_snd_pcm_close (audio_renderer r))
                           ''ALSA PCM close'' (base_logger r) (trace w @ dec @ drain);
                   ctl = CHK_ALSA_ERRNO_events E (Call_snd_ctl_close (ctl r))
                           ''ALSA CTL close'' (base_logger r) (trace w @ dec @ drain @ pcm)
               in new_events w w1 = dec @ drain @ pcm @ ctl @ [Call_free (Some a)])
           \<and> (distinct (live w) \<longrightarrow>
                set (live w1) =
                  set (live w) - (AacDecoder ` set_option (audio_decoder r)
                                   \<union> PcmHandle ` set_option (audio_renderer r)
                                   \<union> CtlHandle ` set_option (ctl r) \<union> {Mem a}))
           \<and> audio_renderer_alsa_destroy E' (Some a) w1 = Inl InvalidPointer"
    using 1 2 3 4 5 by blast
qed

subsection \<open>Construction: the control surface\<close>

lemma snd_ctl_open_fields [simp]:
  "fst (snd_ctl_open E cp n m w) = ret E (trace w @ [Call_snd_ctl_open n m])"
  "trace (snd (snd (snd_ctl_open E cp n m w))) = trace w @ [Call_snd_ctl_open n m]"
  "heap (snd (snd (snd_ctl_open E cp n m w))) = heap w"
  "pcm_setup (snd (snd (snd_ctl_open E cp n m w))) = pcm_setup w"
  "mHasCtrlVolume (snd (snd (snd_ctl_open E cp n m w))) = mHasCtrlVolume w"
  by (simp_all add: snd_ctl_open_def allocate_def Let_def)

lemma snd_ctl_elem_id_malloc_fields [simp]:
  "fst (snd_ctl_elem_id_malloc E w) = ret E (trace w @ [Call_snd_ctl_elem_id_malloc])"
  "trace (snd (snd (snd_ctl_elem_id_malloc E w))) = trace w @ [Call_snd_ctl_elem_id_malloc]"
  "heap (snd (snd (snd_ctl_elem_id_malloc E w))) = heap w"
  "pcm_setup (snd (snd (snd_ctl_elem_id_malloc E w))) = pcm_setup w"
  "mHasCtrlVolume (snd (snd (snd_ctl_elem_id_malloc E w))) = mHasCtrlVolume w"
  by (simp_all add: snd_ctl_elem_id_malloc_def allocate_def Let_def)

lemma snd_ctl_elem_id_set_interface_fields [simp]:
  "trace (snd_ctl_elem_id_set_interface p v w) = trace w"
  "heap (snd_ctl_elem_id_set_interface p v w) = heap w"
  "pcm_setup (snd_ctl_elem_id_set_interface p v w) = pcm_setup w"
  "mHasCtrlVolume (snd_ctl_elem_id_set_interface p v w) = mHasCtrlVolume w"
  by (simp_all add: snd_ctl_elem_id_set_interface_def split: option.splits)

lemma snd_ctl_elem_id_set_numid_fields [simp]:
  "trace (snd_ctl_elem_id_set_numid p v w) = trace w"
  "heap (snd_ctl_elem_id_set_numid p v w) = heap w"
  "pcm_setup (snd_ctl_elem_id_set_numid p v w) = pcm_setup w"
  "mHasCtrlVolume (snd_ctl_elem_id_set_numid p v w) = mHasCtrlVolume w"
  by (simp_all add: snd_ctl_elem_id_set_numid_def split: option.splits)

lemma snd_ctl_elem_list_fields [simp]:
  "fst (snd_ctl_elem_list E c w) = ret E (trace w @ [Call_snd_ctl_elem_list c])"
  "fst (snd (snd_ctl_elem_list E c w)) = elem_list E (trace w @ [Call_snd_ctl_elem_list c])"
  "trace (snd (snd (snd_ctl_elem_list E c w))) = trace w @ [Call_snd_ctl_elem_list c]"
  "heap (snd (snd (snd_ctl_elem_list E c w))) = heap w"
  "pcm_setup (snd (snd (snd_ctl_elem_list E c w))) = pcm_setup w"
  "mHasCtrlVolume (snd (snd (snd_ctl_elem_list E c w))) = mHasCtrlVolume w"
  by (simp_all add: snd_ctl_elem_list_def Let_def)

lemma snd_ctl_elem_list_alloc_space_fields [simp]:
  "fst (snd_ctl_elem_list_alloc_space E n w) =
     ret E (trace w @ [Call_snd_ctl_elem_list_alloc_space n])"
  "trace (snd (snd (snd_ctl_elem_list_alloc_space E n w))) =
     trace w @ [Call_snd_ctl_elem_list_alloc_space n]"
  "heap (snd (snd (snd_ctl_elem_list_alloc_space E n w))) = heap w"
  "pcm_setup (snd (snd (snd_ctl_elem_list_alloc_space E n w))) = pcm_setup w"
  "mHasCtrlVolume (snd (snd (snd_ctl_elem_list_alloc_space E n w))) = mHasCtrlVolume w"
  by (simp_all add: snd_ctl_elem_list_alloc_space_def allocate_def Let_def)

lemma snd_ctl_elem_list_free_space_fields [simp]:
  "trace (snd_ctl_elem_list_free_space s w) = trace w @ [Call_snd_ctl_elem_list_free_space s]"
  "heap (snd_ctl_elem_list_free_space s w) = heap w"
  "pcm_setup (snd_ctl_elem_list_free_space s w) = pcm_setup w"
  "mHasCtrlVolume (snd_ctl_elem_list_free_space s w) = mHasCtrlVolume w"
  by (simp_all add: snd_ctl_elem_list_free_space_def release_def Let_def split: option.splits)

lemma CHK_control_surface [simp]:
  "trace (snd (CHK_ALSA_ERRNO (snd_ctl_open E cp n m) msg lg w)) =
     trace w @ CHK_ALSA_ERRNO_events E (Call_snd_ctl_open n m) msg lg (trace w)"
  "trace (snd (CHK_ALSA_ERRNO (snd_ctl_elem_id_malloc E) msg lg w)) =
     trace w @ CHK_ALSA_ERRNO_events E Call_snd_ctl_elem_id_malloc msg lg (trace w)"
  "trace (snd (CHK_ALSA_ERRNO (snd_ctl_elem_list E c) msg lg w)) =
     trace w @ CHK_ALSA_ERRNO_events E (Call_snd_ctl_elem_list c) msg lg (trace w)"
  "trace (snd (CHK_ALSA_ERRNO (snd_ctl_elem_list_alloc_space E k) msg lg w)) =
     trace w @ CHK_ALSA_ERRNO_events E (Call_snd_ctl_elem_list_alloc_space k) msg lg (trace w)"
  by (simp_all add: CHK_ALSA_ERRNO_trace [where E = E])

lemma CHK_snd_ctl_elem_list_out:
  "fst (CHK_ALSA_ERRNO (snd_ctl_elem_list E c) msg lg w) =
     elem_list E (trace w @
       (if ret E (trace w @ [Call_snd_ctl_elem_list c]) < 0
        then [Call_snd_ctl_elem_list c, Call_snd_ctl_elem_list c]
        else [Call_snd_ctl_elem_list c]))"
  by (simp add: CHK_ALSA_ERRNO_out [where E = E and ev = "Call_snd_ctl_elem_list c"])

text \<open>
  The loop: it logs and clears the flag exactly when it starts with a positive count
  and none of the names below the count contains the pattern. On a count of zero it does
  nothing, so the flag keeps the value \<open>True\<close> it was given before the loop.
\<close>

lemma find_playback_volume_unchanged [simp]:
  "heap (find_playback_volume l r n w) = heap w"
  "pcm_setup (find_playback_volume l r n w) = pcm_setup w"
  by (induction n arbitrary: w) simp_all

lemma no_playback_volume_nth:
  "no_playback_volume l n \<longleftrightarrow>
     (\<forall>i<n. strstr (snd_ctl_elem_list_get_name l i) ''Playback Volume'' = None)"
  by (induction n) (auto simp: less_Suc_eq)

lemma find_playback_volume_flag:
  "mHasCtrlVolume (find_playback_volume l r n w) =
     (if 0 < n \<and> no_playback_volume l n then False else mHasCtrlVolume w)"
  by (induction n arbitrary: w) auto

lemma find_playback_volume_trace:
  "trace (find_playback_volume l r n w) =
     trace w @
     (if 0 < n \<and> no_playback_volume l n
      then [Call_logger_log (base_logger r) LOGGER_INFO
              (ArgStr ''Cannot control Volume for selected device'') []]
      else [])"
  by (induction n arbitrary: w) auto

lemma open_control_surface_result [simp]:
  "fst (open_control_surface E device r w) = 1"
  "heap (snd (snd (open_control_surface E device r w))) = heap w"
  "pcm_setup (snd (snd (open_control_surface E device r w))) = pcm_setup w"
  "audio_decoder (fst (snd (open_control_surface E device r w))) = audio_decoder r"
  "audio_renderer (fst (snd (open_control_surface E device r w))) = audio_renderer r"
  by (simp_all add: open_control_surface_def Let_def split_def)

lemma open_control_surface_flag:
  assumes "\<And>h. elem_list E h = elems"
  shows "mHasCtrlVolume (snd (snd (open_control_surface E dev r w))) =
           (elems = [] \<or> \<not> no_playback_volume elems (length elems))"
  by (simp add: open_control_surface_def Let_def split_def find_playback_volume_flag
      snd_ctl_elem_list_get_count_def CHK_snd_ctl_elem_list_out assms)

lemma open_control_surface_extends:
  "trace (snd (snd (open_control_surface E dev r w))) =
     trace w @ new_events w (snd (snd (open_control_surface E dev r w)))"
  by (simp add: open_control_surface_def Let_def split_def new_events_def
      find_playback_volume_trace)

lemma open_control_surface_events:
  "filter is_snd_ctl_open (new_events w (snd (snd (open_control_surface E dev r w)))) =
     (if ret E (trace w @ [Call_snd_ctl_open dev 0]) < 0
      then [Call_snd_ctl_open dev 0, Call_snd_ctl_open dev 0]
      else [Call_snd_ctl_open dev 0])"
  "filter is_release (new_events w (snd (snd (open_control_surface E dev r w)))) = []"
  by (simp_all add: open_control_surface_def Let_def split_def new_events_def
      find_playback_volume_trace filter_if_single CHK_ALSA_ERRNO_events_filter
      split del: if_split)

lemma no_playback_volume_set:
  "no_playback_volume l (length l) \<longleftrightarrow>
     (\<forall>e\<in>set l. strstr (fst e) ''Playback Volume'' = None)"
  by (simp add: no_playback_volume_nth snd_ctl_elem_list_get_name_def all_set_conv_all_nth)

subsection \<open>The allocation counter only grows\<close>

lemma next_id_steps [simp]:
  "next_id (snd_ctl_elem_id_set_interface q v w) = next_id w"
  "next_id (snd_ctl_elem_id_set_numid q k w) = next_id w"
  "next_id (snd (snd (snd_ctl_elem_list E c w))) = next_id w"
  "next_id (snd_ctl_elem_list_free_space s w) = next_id w"
  by (simp_all add: snd_ctl_elem_id_set_interface_def snd_ctl_elem_id_set_numid_def
      snd_ctl_elem_list_def snd_ctl_elem_list_free_space_def release_def Let_def
      split: option.splits)

lemma next_id_grows [simp]:
  "n \<le> next_id w \<Longrightarrow> n \<le> next_id (snd (snd (snd_pcm_open E dev st m w)))"
  "n \<le> next_id w \<Longrightarrow> n \<le> next_id (snd (snd_pcm_set_params E p ps w))"
  "n \<le> next_id w \<Longrightarrow> n \<le> next_id (snd (snd (snd_ctl_open E cp dev m w)))"
  "n \<le> next_id w \<Longrightarrow> n \<le> next_id (snd (snd (snd_ctl_elem_id_malloc E w)))"
  "n \<le> next_id w \<Longrightarrow> n \<le> next_id (snd (snd (snd_ctl_elem_list_alloc_space E k w)))"
  by (simp_all add: snd_pcm_open_def snd_pcm_set_params_def snd_ctl_open_def
      snd_ctl_elem_id_malloc_def snd_ctl_elem_list_alloc_space_def allocate_def Let_def
      split: option.splits)

lemma CHK_ALSA_ERRNO_next_id_grows:
  assumes "\<And>v k. k \<le> next_id v \<Longrightarrow> k \<le> next_id (snd (snd (f v)))"
    and "n \<le> next_id w"
  shows "n \<le> next_id (snd (CHK_ALSA_ERRNO f msg lg w))"
  using assms by (simp add: CHK_ALSA_ERRNO_def Let_def split_def)

lemma next_id_grows_CHK [simp]:
  "n \<le> next_id w \<Longrightarrow>
     n \<le> next_id (snd (CHK_ALSA_ERRNO (snd_ctl_open E cp dev m) msg lg w))"
  "n \<le> next_id w \<Longrightarrow>
     n \<le> next_id (snd (CHK_ALSA_ERRNO (snd_ctl_elem_id_malloc E) msg lg w))"
  "n \<le> next_id w \<Longrightarrow>
     n \<le> next_id (snd (CHK_ALSA_ERRNO (snd_ctl_elem_list_alloc_space E k) msg lg w))"
  by (rule CHK_ALSA_ERRNO_next_id_grows; simp)+

lemma next_id_find_playback_volume [simp]:
  "next_id (find_playback_volume l r n w) = next_id w"
  by (induction n arbitrary: w) simp_all

lemma next_id_init_decoder:
  "n \<le> next_id w \<Longrightarrow> n \<le> next_id (snd (snd (audio_renderer_alsa_init_decoder E r w)))"
  by (simp add: audio_renderer_alsa_init_decoder_def aacDecoder_Open_def
      aacDecoder_ConfigRaw_def aacDecoder_GetStreamInfo_def allocate_def Let_def split_def
      split: option.splits)

lemma next_id_open_control_surface:
  "n \<le> next_id w \<Longrightarrow> n \<le> next_id (snd (snd (open_control_surface E dev r w)))"
  by (simp add: open_control_surface_def Let_def split_def split del: if_split)

subsection \<open>Construction\<close>

lemma new_events_trans:
  assumes "trace w' = trace w @ new_events w w'" and "trace w'' = trace w' @ new_events w' w''"
  shows "new_events w w'' = new_events w w' @ new_events w' w''"
    and "trace w'' = trace w @ new_events w w''"
proof -
  have "trace w'' = trace w @ (new_events w w' @ new_events w' w'')"
    using assms by (metis append_assoc)
  then show "new_events w w'' = new_events w w' @ new_events w' w''"
    by (rule new_events_append)
  then show "trace w'' = trace w @ new_events w w''"
    using assms by (metis append_assoc)
qed

lemma calloc_renderer_fields [simp]:
  "trace (snd (calloc_renderer E w)) = trace w @ [Call_calloc]"
  "pcm_setup (snd (calloc_renderer E w)) = pcm_setup w"
  "mHasCtrlVolume (snd (calloc_renderer E w)) = mHasCtrlVolume w"
  by (simp_all add: calloc_renderer_def allocate_def Let_def)

lemma init_decoder_extends:
  "trace (snd (snd (audio_renderer_alsa_init_decoder E r w))) =
     trace w @ new_events w (snd (snd (audio_renderer_alsa_init_decoder E r w)))"
  by (simp add: audio_renderer_alsa_init_decoder_def aacDecoder_Open_def
      aacDecoder_ConfigRaw_def aacDecoder_GetStreamInfo_def allocate_def Let_def split_def
      new_events_def split: option.splits)

lemma init_decoder_events:
  "filter is_snd_ctl_open (new_events w (snd (snd (audio_renderer_alsa_init_decoder E r w)))) = []"
  "filter is_release (new_events w (snd (snd (audio_renderer_alsa_init_decoder E r w)))) = []"
  by (simp_all add: audio_renderer_alsa_init_decoder_def aacDecoder_Open_def
      aacDecoder_ConfigRaw_def aacDecoder_GetStreamInfo_def allocate_def Let_def split_def
      new_events_def split: option.splits)

lemma init_decoder_unchanged [simp]:
  "heap (snd (snd (audio_renderer_alsa_init_decoder E r w))) = heap w"
  "mHasCtrlVolume (snd (snd (audio_renderer_alsa_init_decoder E r w))) = mHasCtrlVolume w"
  "config (fst (snd (audio_renderer_alsa_init_decoder E r w))) = config r"
  by (simp_all add: audio_renderer_alsa_init_decoder_def aacDecoder_Open_def
      aacDecoder_ConfigRaw_def aacDecoder_GetStreamInfo_def allocate_def Let_def split_def
      split: option.splits)

lemma snd_pcm_open_fields [simp]:
  "fst (snd_pcm_open E n st m w) = ret E (trace w @ [Call_snd_pcm_open n st m])"
  "trace (snd (snd (snd_pcm_open E n st m w))) = trace w @ [Call_snd_pcm_open n st m]"
  "heap (snd (snd (snd_pcm_open E n st m w))) = heap w"
  "mHasCtrlVolume (snd (snd (snd_pcm_open E n st m w))) = mHasCtrlVolume w"
  "\<not> ret E (trace w @ [Call_snd_pcm_open n st m]) < 0 \<Longrightarrow>
     fst (snd (snd_pcm_open E n st m w)) = Some (next_id w)"
  by (simp_all add: snd_pcm_open_def allocate_def Let_def)

lemma snd_pcm_set_params_fields [simp]:
  "fst (snd_pcm_set_params E p ps w) = ret E (trace w @ [Call_snd_pcm_set_params p ps])"
  "trace (snd (snd_pcm_set_params E p ps w)) = trace w @ [Call_snd_pcm_set_params p ps]"
  "heap (snd (snd_pcm_set_params E p ps w)) = heap w"
  "mHasCtrlVolume (snd (snd_pcm_set_params E p ps w)) = mHasCtrlVolume w"
  by (simp_all add: snd_pcm_set_params_def Let_def split: option.splits)

text \<open>
  The device phase. Its three outcomes: \<open>-51\<close> after a failed open, \<open>-52\<close> after a
  failed parameter negotiation, and \<open>1\<close> in every other case, whatever the
  control-surface calls returned.
\<close>

lemma init_renderer_summary:
  assumes "audio_renderer_rpi_init_renderer E r vr w = Inr (rc, r', w')"
  shows "trace w' = trace w @ new_events w w'"
    and "filter is_release (new_events w w') = []"
    and "rc \<noteq> 1 \<Longrightarrow> filter is_snd_ctl_open (new_events w w') = []"
    and "heap w' = heap w"
    and "rc = 1 \<Longrightarrow>
           (\<exists>p. audio_renderer r' = Some p \<and> pcm_setup w' p = Some playback_params)
           \<and> audio_decoder r' = audio_decoder r"
    and "rc = 1 \<Longrightarrow> (\<And>h. elem_list E h = elems) \<Longrightarrow>
           mHasCtrlVolume w' = (elems = [] \<or> \<not> no_playback_volume elems (length elems))"
    and "next_id w \<le> next_id w'"
proof -
  obtain cfg where cfg: "config r = Some cfg"
    using assms by (cases "config r") (simp_all add: audio_renderer_rpi_init_renderer_def)
  define dev where "dev = (case alsaString cfg of Some s \<Rightarrow> s | None \<Rightarrow> ''default'')"
  define w1 where "w1 = snd (snd (snd_pcm_open E dev SND_PCM_STREAM_PLAYBACK 0 w))"
  define e1 where "e1 = ret E (trace w @ [Call_snd_pcm_open dev SND_PCM_STREAM_PLAYBACK 0])"
  define r1 where "r1 = r\<lparr>audio_renderer := Some (next_id w)\<rparr>"
  define w2 where "w2 = snd (snd_pcm_set_params E (Some (next_id w)) playback_params w1)"
  define e2 where
    "e2 = ret E (trace w1 @ [Call_snd_pcm_set_params (Some (next_id w)) playback_params])"
  have outcome: "audio_renderer_rpi_init_renderer E r vr w =
     (if e1 < 0 then Inr (- 51, r, logger_log (base_logger r) LOGGER_ERR (ArgStrerror e1) [] w1)
      else if e2 < 0
      then Inr (- 52, r1, logger_log (base_logger r1) LOGGER_ERR (ArgStrerror e2) [] w2)
      else Inr (open_control_surface E dev r1 w2))"
    unfolding dev_def w1_def e1_def r1_def w2_def e2_def
    using cfg by (simp add: audio_renderer_rpi_init_renderer_def Let_def split_def)
  have t1: "trace w1 = trace w @ [Call_snd_pcm_open dev SND_PCM_STREAM_PLAYBACK 0]"
    by (simp add: w1_def)
  have t2: "trace w2 = trace w @ [Call_snd_pcm_open dev SND_PCM_STREAM_PLAYBACK 0,
                                 Call_snd_pcm_set_params (Some (next_id w)) playback_params]"
    by (simp add: w2_def t1)
  have h2: "heap w1 = heap w" "heap w2 = heap w"
    by (simp_all add: w1_def w2_def)
  have k2: "next_id w \<le> next_id w1" "next_id w \<le> next_id w2"
    by (simp_all add: w1_def w2_def)
  consider (a) "e1 < 0" | (b) "\<not> e1 < 0" "e2 < 0" | (ok) "\<not> e1 < 0" "\<not> e2 < 0"
    by blast
  then have "trace w' = trace w @ new_events w w'
      \<and> filter is_release (new_events w w') = []
      \<and> (rc \<noteq> 1 \<longrightarrow> filter is_snd_ctl_open (new_events w w') = [])
      \<and> heap w' = heap w
      \<and> (rc = 1 \<longrightarrow>
           (\<exists>p. audio_renderer r' = Some p \<and> pcm_setup w' p = Some playback_params)
           \<and> audio_decoder r' = audio_decoder r)
      \<and> (rc = 1 \<longrightarrow> (\<forall>h. elem_list E h = elems) \<longrightarrow>
           mHasCtrlVolume w' = (elems = [] \<or> \<not> no_playback_volume elems (length elems)))
      \<and> next_id w \<le> next_id w'"
  proof cases
    case a
    with outcome assms have "rc = - 51" "w' = logger_log (base_logger r) LOGGER_ERR (ArgStrerror e1) [] w1"
      by simp_all
    then show ?thesis
      by (simp add: new_events_def t1 h2 k2)
  next
    case b
    with outcome assms have "rc = - 52"
        "w' = logger_log (base_logger r1) LOGGER_ERR (ArgStrerror e2) [] w2"
      by simp_all
    then show ?thesis
      by (simp add: new_events_def t2 h2 k2)
  next
    case ok
    with outcome assms
    have eq: "open_control_surface E dev r1 w2 = (rc, r', w')"
      by simp
    then have rc: "rc = 1" and r': "r' = fst (snd (open_control_surface E dev r1 w2))"
      and w': "w' = snd (snd (open_control_surface E dev r1 w2))"
      using open_control_surface_result(1) [of E dev r1 w2] by simp_all
    have x2: "trace w2 = trace w @ new_events w w2"
      by (simp add: new_events_def t2)
    have x3: "trace w' = trace w2 @ new_events w2 w'"
      unfolding w' by (rule open_control_surface_extends)
    have n: "new_events w w' = new_events w w2 @ new_events w2 w'"
      and t: "trace w' = trace w @ new_events w w'"
      using new_events_trans [OF x2 x3] by simp_all
    have "new_events w w2 = [Call_snd_pcm_open dev SND_PCM_STREAM_PLAYBACK 0,
                              Call_snd_pcm_set_params (Some (next_id w)) playback_params]"
      using t2 by (rule new_events_append)
    moreover have "filter is_release (new_events w2 w') = []"
      unfolding w' by (rule open_control_surface_events)
    ultimately have "filter is_release (new_events w w') = []"
      by (simp add: n)
    moreover have "heap w' = heap w"
      by (simp add: w' h2)
    moreover have "pcm_setup w2 (next_id w) = Some playback_params"
      using ok(2) by (simp add: w2_def e2_def snd_pcm_set_params_def Let_def)
    then have "(\<exists>p. audio_renderer r' = Some p \<and> pcm_setup w' p = Some playback_params)
        \<and> audio_decoder r' = audio_decoder r"
      by (simp add: r' w' r1_def)
    moreover have "next_id w \<le> next_id w'"
      unfolding w' using k2(2) by (rule next_id_open_control_surface)
    moreover have "(\<forall>h. elem_list E h = elems) \<longrightarrow>
           mHasCtrlVolume w' = (elems = [] \<or> \<not> no_playback_volume elems (length elems))"
      unfolding w' using open_control_surface_flag [of E elems dev r1 w2] by blast
    ultimately show ?thesis
      using t rc by simp
  qed
  then show "trace w' = trace w @ new_events w w'"
    and "filter is_release (new_events w w') = []"
    and "rc \<noteq> 1 \<Longrightarrow> filter is_snd_ctl_open (new_events w w') = []"
    and "heap w' = heap w"
    and "rc = 1 \<Longrightarrow>
           (\<exists>p. audio_renderer r' = Some p \<and> pcm_setup w' p = Some playback_params)
           \<and> audio_decoder r' = audio_decoder r"
    and "rc = 1 \<Longrightarrow> (\<And>h. elem_list E h = elems) \<Longrightarrow>
           mHasCtrlVolume w' = (elems = [] \<or> \<not> no_playback_volume elems (length elems))"
    and "next_id w \<le> next_id w'"
    by simp_all
qed

lemma init_decoder_ok:
  "fst (audio_renderer_alsa_init_decoder E r w) = 1 \<Longrightarrow>
   audio_decoder (fst (snd (audio_renderer_alsa_init_decoder E r w))) \<noteq> None"
  by (simp add: audio_renderer_alsa_init_decoder_def aacDecoder_Open_def
      aacDecoder_ConfigRaw_def aacDecoder_GetStreamInfo_def Let_def split_def
      split: option.splits if_splits)

text \<open>
  The four ways \<open>audio_renderer_alsa_init\<close> ends, for a call that does not fault:
  \<open>calloc\<close> failed; the decoder phase failed; the device phase failed; or a handle is
  returned. The lemma gives the events and the result of each.
\<close>

lemma init_outcomes:
  assumes "audio_renderer_alsa_init E lg vr cfg w = Inr (res, w')"
  shows "trace w' = trace w @ new_events w w' \<and>
    ((res = None \<and> filter is_snd_ctl_open (new_events w w') = []) \<or>
     (\<exists>a r p. res = Some a \<and> heap w' a = Some r \<and> a < next_id w'
        \<and> audio_decoder r \<noteq> None \<and> audio_renderer r = Some p
        \<and> pcm_setup w' p = Some playback_params
        \<and> filter is_release (new_events w w') = []
        \<and> (\<forall>elems. (\<forall>h. elem_list E h = elems) \<longrightarrow>
              mHasCtrlVolume w' =
                (elems = [] \<or> \<not> no_playback_volume elems (length elems)))))"
proof -
  define p where "p = fst (calloc_renderer E w)"
  define w1 where "w1 = snd (calloc_renderer E w)"
  define r1 where "r1 = zero_renderer\<lparr>base_logger := lg,
      base_funcs := Some Audio_renderer_alsa_funcs, base_type := Some AUDIO_RENDERER_RPI,
      config := cfg\<rparr>"
  define vr' where "vr' = (case vr of None \<Rightarrow> None
      | Some v \<Rightarrow> if video_type v \<noteq> VIDEO_RENDERER_RPI then None else Some v)"
  define rc where "rc = fst (audio_renderer_alsa_init_decoder E r1 w1)"
  define r2 where "r2 = fst (snd (audio_renderer_alsa_init_decoder E r1 w1))"
  define w2 where "w2 = snd (snd (audio_renderer_alsa_init_decoder E r1 w1))"
  have outcome: "audio_renderer_alsa_init E lg vr cfg w =
    (case p of
       None \<Rightarrow> Inr (None, w1)
     | Some a \<Rightarrow>
         if rc \<noteq> 1 then Inr (None, free (Some a) w2)
         else
           (case audio_renderer_rpi_init_renderer E r2 vr' w2 of
              Inl f \<Rightarrow> Inl f
            | Inr (rc2, r3, w3) \<Rightarrow>
                if rc2 \<noteq> 1 then
                  Inr (None, free (Some a) (audio_renderer_alsa_destroy_decoder r3 w3))
                else Inr (Some a, w3\<lparr>heap := (heap w3)(a \<mapsto> r3)\<rparr>)))"
    unfolding p_def w1_def r1_def vr'_def rc_def r2_def w2_def
    by (cases "fst (calloc_renderer E w)")
      (simp_all add: audio_renderer_alsa_init_def Let_def split_def)
  have t1: "trace w1 = trace w @ [Call_calloc]"
    by (simp add: w1_def)
  then have x1: "trace w1 = trace w @ new_events w w1" and n1: "new_events w w1 = [Call_calloc]"
    by (simp_all add: new_events_def)
  have x2: "trace w2 = trace w1 @ new_events w1 w2"
    unfolding w2_def by (rule init_decoder_extends)
  have f2: "filter is_snd_ctl_open (new_events w1 w2) = []"
      "filter is_release (new_events w1 w2) = []"
    unfolding w2_def by (rule init_decoder_events)+
  note n2 = new_events_trans [OF x1 x2]
  show ?thesis
  proof (cases p)
    case None
    with outcome assms have "res = None" "w' = w1"
      by simp_all
    then show ?thesis
      using x1 n1 by simp
  next
    case (Some a)
    show ?thesis
    proof (cases "rc = 1")
      case False
      with Some outcome assms have r: "res = None" "w' = free (Some a) w2"
        by simp_all
      have "trace w' = trace w2 @ [Call_free (Some a)]"
        by (simp add: r)
      then have x3: "trace w' = trace w2 @ new_events w2 w'"
          and n3: "new_events w2 w' = [Call_free (Some a)]"
        by (simp_all add: new_events_def)
      from new_events_trans [OF n2(2) x3] show ?thesis
        by (simp add: r(1) n2(1) n1 n3 f2)
    next
      case True
      with Some outcome assms obtain rc2 r3 w3 where
        dev: "audio_renderer_rpi_init_renderer E r2 vr' w2 = Inr (rc2, r3, w3)"
        by (cases "audio_renderer_rpi_init_renderer E r2 vr' w2") auto
      note s = init_renderer_summary [OF dev]
      note n3 = new_events_trans [OF n2(2) s(1)]
      show ?thesis
      proof (cases "rc2 = 1")
        case False
        with Some True dev outcome assms have r: "res = None"
            "w' = free (Some a) (audio_renderer_alsa_destroy_decoder r3 w3)"
          by simp_all
        have "trace w' = trace w3 @ [Call_aacDecoder_Close (audio_decoder r3), Call_free (Some a)]"
          by (simp add: r audio_renderer_alsa_destroy_decoder_def)
        then have x4: "trace w' = trace w3 @ new_events w3 w'"
          and n4: "new_events w3 w' =
                     [Call_aacDecoder_Close (audio_decoder r3), Call_free (Some a)]"
          by (simp_all add: new_events_def)
        from new_events_trans [OF n3(2) x4] show ?thesis
          using s(3) [OF False] by (simp add: r(1) n3(1) n2(1) n1 n4 f2)
      next
        case rc2: True
        with Some True dev outcome assms have r: "res = Some a"
            "w' = w3\<lparr>heap := (heap w3)(a \<mapsto> r3)\<rparr>"
          by simp_all
        have tw: "trace w' = trace w3"
          by (simp add: r)
        then have nw: "new_events w w' = new_events w w3"
          by (simp add: new_events_def)
        have "audio_decoder r2 \<noteq> None"
          using True init_decoder_ok [of E r1 w1] by (simp add: rc_def r2_def)
        then have "audio_decoder r3 \<noteq> None"
          using s(5) [OF rc2] by simp
        moreover obtain p3 where "audio_renderer r3 = Some p3"
            "pcm_setup w' p3 = Some playback_params"
          using s(5) [OF rc2] by (auto simp: r)
        moreover have "heap w' a = Some r3"
          by (simp add: r)
        moreover have "a < next_id w1"
          using Some by (simp add: p_def w1_def calloc_renderer_def allocate_def Let_def
              split: if_splits)
        then have "a < next_id w'"
          using next_id_init_decoder [of "Suc a" w1 E r1] s(7) by (simp add: w2_def r)
        moreover have "filter is_release (new_events w w') = []"
          by (simp add: nw n3(1) n2(1) n1 f2 s(2))
        moreover have "trace w' = trace w @ new_events w w'"
          using n3(2) by (simp add: tw nw)
        moreover have "\<forall>elems. (\<forall>h. elem_list E h = elems) \<longrightarrow>
              mHasCtrlVolume w' = (elems = [] \<or> \<not> no_playback_volume elems (length elems))"
          using s(6) [OF rc2] by (simp add: r)
        ultimately show ?thesis
          using r(1) by blast
      qed
    qed
  qed
qed

text \<open>
  C6, as the code has it. \<open>snd_ctl_open\<close> is called only as the argument of
  \<open>CHK_ALSA_ERRNO\<close>, which logs a negative result and goes on, so the call cannot
  make the construction fail: in every construction that gets as far as opening the
  control surface, whatever that call and the calls after it return, a handle is
  returned, the structure at the handle holds a decoder and a PCM, and nothing has been
  closed or freed.
\<close>

theorem control_open_not_fatal:
  assumes "audio_renderer_alsa_init E lg vr cfg w = Inr (res, w')"
    and "filter is_snd_ctl_open (new_events w w') \<noteq> []"
  shows "\<exists>a r. res = Some a \<and> heap w' a = Some r \<and> audio_decoder r \<noteq> None
           \<and> audio_renderer r \<noteq> None \<and> filter is_release (new_events w w') = []"
  using init_outcomes [OF assms(1)] assms(2) by auto

text \<open>
  What a successful construction establishes, and the render and volume theorems
  assume: the handle is the address of a structure allocated before the current
  allocation counter, whose PCM is set up with the playback parameters.
\<close>

lemma init_establishes:
  assumes "audio_renderer_alsa_init E lg vr cfg w = Inr (Some a, w')"
  shows "\<exists>r p. heap w' a = Some r \<and> a < next_id w' \<and> audio_renderer r = Some p
           \<and> pcm_setup w' p = Some playback_params"
  using init_outcomes [OF assms] by auto

text \<open>
  The flag after a successful construction, on a device that reports the element list
  \<open>elems\<close>: volume control is enabled when some name contains the pattern and also
  when the list is empty. So a non-empty list without a match disables the volume
  control, and every volume call is then a no-op.
\<close>

lemma init_volume_flag:
  assumes "audio_renderer_alsa_init E lg vr cfg w = Inr (Some a, w')"
    and "\<And>h. elem_list E h = elems"
  shows "mHasCtrlVolume w' =
           (elems = [] \<or> (\<exists>e\<in>set elems. strstr (fst e) ''Playback Volume'' \<noteq> None))"
  using init_outcomes [OF assms(1)] assms(2) by (auto simp: no_playback_volume_set)

lemma no_match_disables_volume:
  assumes "audio_renderer_alsa_init E lg vr cfg w = Inr (Some a, w')"
    and "\<And>h. elem_list E h = elems" and "elems \<noteq> []"
    and "\<forall>e\<in>set elems. strstr (fst e) ''Playback Volume'' = None"
  shows "\<not> mHasCtrlVolume w' \<and> audio_renderer_alsa_set_volume E' (Some a) volume w' = Inr w'"
  using init_volume_flag [OF assms(1,2)] assms(3,4) by (simp add: set_volume_disabled)

subsection \<open>What a failed construction leaves allocated\<close>

lemma init_decoder_account:
  assumes "audio_renderer_alsa_init_decoder E r w = (rc, r', w')"
  shows "filter is_snd_pcm_open (new_events w w') = []
     \<and> filter is_snd_pcm_set_params (new_events w w') = []
     \<and> ((audio_decoder r' = None \<and> rc \<noteq> 1 \<and> live w' = live w
           \<and> filter is_config_raw (new_events w w') = [])
        \<or> (\<exists>d. audio_decoder r' = Some d \<and> live w' = AacDecoder d # live w
              \<and> filter is_config_raw (new_events w w') =
                  [Call_aacDecoder_ConfigRaw (Some d) eld_conf 4]))"
  using assms
  by (auto simp: audio_renderer_alsa_init_decoder_def aacDecoder_Open_def
      aacDecoder_ConfigRaw_def aacDecoder_GetStreamInfo_def allocate_def Let_def split_def
      new_events_def eld_conf_def split: option.splits if_splits)

lemma init_renderer_account:
  assumes "audio_renderer_rpi_init_renderer E r vr w = Inr (rc, r', w')" and "rc \<noteq> 1"
  shows "audio_decoder r' = audio_decoder r
     \<and> filter is_config_raw (new_events w w') = []
     \<and> ((live w' = live w \<and> filter is_snd_pcm_open (new_events w w') \<noteq> []
           \<and> filter is_snd_pcm_set_params (new_events w w') = [])
        \<or> (\<exists>p. live w' = PcmHandle p # live w
              \<and> filter is_snd_pcm_set_params (new_events w w') =
                  [Call_snd_pcm_set_params (Some p) playback_params]))"
proof -
  obtain cfg where cfg: "config r = Some cfg"
    using assms by (cases "config r") (simp_all add: audio_renderer_rpi_init_renderer_def)
  define dev where "dev = (case alsaString cfg of Some s \<Rightarrow> s | None \<Rightarrow> ''default'')"
  define w1 where "w1 = snd (snd (snd_pcm_open E dev SND_PCM_STREAM_PLAYBACK 0 w))"
  define e1 where "e1 = ret E (trace w @ [Call_snd_pcm_open dev SND_PCM_STREAM_PLAYBACK 0])"
  define r1 where "r1 = r\<lparr>audio_renderer := Some (next_id w)\<rparr>"
  define w2 where "w2 = snd (snd_pcm_set_params E (Some (next_id w)) playback_params w1)"
  define e2 where
    "e2 = ret E (trace w1 @ [Call_snd_pcm_set_params (Some (next_id w)) playback_params])"
  have outcome: "audio_renderer_rpi_init_renderer E r vr w =
     (if e1 < 0 then Inr (- 51, r, logger_log (base_logger r) LOGGER_ERR (ArgStrerror e1) [] w1)
      else if e2 < 0
      then Inr (- 52, r1, logger_log (base_logger r1) LOGGER_ERR (ArgStrerror e2) [] w2)
      else Inr (open_control_surface E dev r1 w2))"
    unfolding dev_def w1_def e1_def r1_def w2_def e2_def
    using cfg by (simp add: audio_renderer_rpi_init_renderer_def Let_def split_def)
  have t1: "trace w1 = trace w @ [Call_snd_pcm_open dev SND_PCM_STREAM_PLAYBACK 0]"
    by (simp add: w1_def)
  have t2: "trace w2 = trace w @ [Call_snd_pcm_open dev SND_PCM_STREAM_PLAYBACK 0,
                                 Call_snd_pcm_set_params (Some (next_id w)) playback_params]"
    by (simp add: w2_def t1)
  consider (a) "e1 < 0" | (b) "\<not> e1 < 0" "e2 < 0" | (ok) "\<not> e1 < 0" "\<not> e2 < 0"
    by blast
  then show ?thesis
  proof cases
    case a
    with outcome assms have "r' = r" "w' = logger_log (base_logger r) LOGGER_ERR (ArgStrerror e1) [] w1"
      by simp_all
    moreover have "live w1 = live w"
      using a by (simp add: w1_def e1_def snd_pcm_open_def Let_def)
    ultimately show ?thesis
      by (simp add: new_events_def t1)
  next
    case b
    with outcome assms have "r' = r1"
        "w' = logger_log (base_logger r1) LOGGER_ERR (ArgStrerror e2) [] w2"
      by simp_all
    moreover have "live w2 = PcmHandle (next_id w) # live w"
      using b(1) by (simp add: w2_def w1_def e1_def snd_pcm_open_def snd_pcm_set_params_def
          allocate_def Let_def)
    ultimately show ?thesis
      by (simp add: new_events_def t2 r1_def)
  next
    case ok
    with outcome assms(1) have "open_control_surface E dev r1 w2 = (rc, r', w')"
      by simp
    then have "rc = 1"
      using open_control_surface_result(1) [of E dev r1 w2] by simp
    with assms(2) show ?thesis
      by simp
  qed
qed

text \<open>
  Every construction that returns NULL, by what it leaves behind: nothing, when it
  failed before the decoder was open (no \<open>aacDecoder_ConfigRaw\<close> call) or at
  \<open>snd_pcm_open\<close>; the open decoder, when the decoder phase failed after
  \<open>aacDecoder_Open\<close>; the open PCM, when \<open>snd_pcm_set_params\<close> failed.
\<close>

lemma init_failure_account:
  assumes "audio_renderer_alsa_init E lg vr cfg w = Inr (None, w')"
  shows "(live w' = live w \<and> filter is_snd_pcm_set_params (new_events w w') = []
           \<and> (filter is_config_raw (new_events w w') = []
               \<or> filter is_snd_pcm_open (new_events w w') \<noteq> []))
     \<or> (\<exists>d. live w' = AacDecoder d # live w
           \<and> filter is_config_raw (new_events w w') =
               [Call_aacDecoder_ConfigRaw (Some d) eld_conf 4]
           \<and> filter is_snd_pcm_open (new_events w w') = [])
     \<or> (\<exists>p. live w' = PcmHandle p # live w
           \<and> filter is_snd_pcm_set_params (new_events w w') =
               [Call_snd_pcm_set_params (Some p) playback_params])"
proof -
  define p where "p = fst (calloc_renderer E w)"
  define w1 where "w1 = snd (calloc_renderer E w)"
  define r1 where "r1 = zero_renderer\<lparr>base_logger := lg,
      base_funcs := Some Audio_renderer_alsa_funcs, base_type := Some AUDIO_RENDERER_RPI,
      config := cfg\<rparr>"
  define vr' where "vr' = (case vr of None \<Rightarrow> None
      | Some v \<Rightarrow> if video_type v \<noteq> VIDEO_RENDERER_RPI then None else Some v)"
  define rc where "rc = fst (audio_renderer_alsa_init_decoder E r1 w1)"
  define r2 where "r2 = fst (snd (audio_renderer_alsa_init_decoder E r1 w1))"
  define w2 where "w2 = snd (snd (audio_renderer_alsa_init_decoder E r1 w1))"
  have outcome: "audio_renderer_alsa_init E lg vr cfg w =
    (case p of
       None \<Rightarrow> Inr (None, w1)
     | Some a \<Rightarrow>
         if rc \<noteq> 1 then Inr (None, free (Some a) w2)
         else
           (case audio_renderer_rpi_init_renderer E r2 vr' w2 of
              Inl f \<Rightarrow> Inl f
            | Inr (rc2, r3, w3) \<Rightarrow>
                if rc2 \<noteq> 1 then
                  Inr (None, free (Some a) (audio_renderer_alsa_destroy_decoder r3 w3))
                else Inr (Some a, w3\<lparr>heap := (heap w3)(a \<mapsto> r3)\<rparr>)))"
    unfolding p_def w1_def r1_def vr'_def rc_def r2_def w2_def
    by (cases "fst (calloc_renderer E w)")
      (simp_all add: audio_renderer_alsa_init_def Let_def split_def)
  have t1: "trace w1 = trace w @ [Call_calloc]"
    by (simp add: w1_def)
  then have x1: "trace w1 = trace w @ new_events w w1" and n1: "new_events w w1 = [Call_calloc]"
    by (simp_all add: new_events_def)
  have x2: "trace w2 = trace w1 @ new_events w1 w2"
    unfolding w2_def by (rule init_decoder_extends)
  have dec: "audio_renderer_alsa_init_decoder E r1 w1 = (rc, r2, w2)"
    by (simp add: rc_def r2_def w2_def)
  note d = init_decoder_account [OF dec]
  note n2 = new_events_trans [OF x1 x2]
  show ?thesis
  proof (cases p)
    case None
    with outcome assms have "w' = w1"
      by simp
    moreover have "live w1 = live w"
      using None by (simp add: p_def w1_def calloc_renderer_def Let_def split: if_splits)
    ultimately show ?thesis
      by (simp add: n1)
  next
    case (Some a)
    then have l1: "live w1 = Mem a # live w"
      by (simp add: p_def w1_def calloc_renderer_def allocate_def Let_def split: if_splits)
    show ?thesis
    proof (cases "rc = 1")
      case False
      with Some outcome assms have r: "w' = free (Some a) w2"
        by simp
      have "trace w' = trace w2 @ [Call_free (Some a)]"
        by (simp add: r)
      then have x3: "trace w' = trace w2 @ new_events w2 w'"
          and n3: "new_events w2 w' = [Call_free (Some a)]"
        by (simp_all add: new_events_def)
      have n: "new_events w w' = Call_calloc # new_events w1 w2 @ [Call_free (Some a)]"
        using new_events_trans(1) [OF n2(2) x3] by (simp add: n2(1) n1 n3)
      have lw: "live w' = remove1 (Mem a) (live w2)"
        by (simp add: r)
      from d show ?thesis
        by (auto simp: n lw l1)
    next
      case True
      with Some outcome assms obtain rc2 r3 w3 where
        dev: "audio_renderer_rpi_init_renderer E r2 vr' w2 = Inr (rc2, r3, w3)"
        by (cases "audio_renderer_rpi_init_renderer E r2 vr' w2") auto
      with Some True outcome assms have rc2: "rc2 \<noteq> 1"
        by auto
      with Some True dev outcome assms
      have r: "w' = free (Some a) (audio_renderer_alsa_destroy_decoder r3 w3)"
        by simp
      note s = init_renderer_summary [OF dev]
      note a = init_renderer_account [OF dev rc2]
      note n3 = new_events_trans [OF n2(2) s(1)]
      have "trace w' = trace w3 @ [Call_aacDecoder_Close (audio_decoder r3), Call_free (Some a)]"
        by (simp add: r audio_renderer_alsa_destroy_decoder_def)
      then have x4: "trace w' = trace w3 @ new_events w3 w'"
        and n4: "new_events w3 w' =
                   [Call_aacDecoder_Close (audio_decoder r3), Call_free (Some a)]"
        by (simp_all add: new_events_def)
      have n: "new_events w w' = Call_calloc # new_events w1 w2 @ new_events w2 w3 @
                 [Call_aacDecoder_Close (audio_decoder r3), Call_free (Some a)]"
        using new_events_trans(1) [OF n3(2) x4] by (simp add: n3(1) n2(1) n1 n4)
      from d True obtain dd where dd: "audio_decoder r2 = Some dd"
          "live w2 = AacDecoder dd # live w1"
        using init_decoder_ok [of E r1 w1] by (auto simp: rc_def r2_def)
      have lw: "live w' = remove1 (Mem a) (remove1 (AacDecoder dd) (live w3))"
        using a dd by (simp add: r audio_renderer_alsa_destroy_decoder_def
            aacDecoder_Close_def release_def Let_def)
      from a d show ?thesis
        by (auto simp: n lw l1 dd)
    qed
  qed
qed

subsection \<open>The concrete worlds are the ones the code produces\<close>

lemmas library_defs = call_def allocate_def release_def logger_log_def CHK_ALSA_ERRNO_def
  calloc_renderer_def malloc_def free_def aacDecoder_Open_def aacDecoder_ConfigRaw_def
  aacDecoder_GetStreamInfo_def aacDecoder_Close_def aacDecoder_Fill_def
  aacDecoder_DecodeFrame_def snd_pcm_open_def snd_pcm_set_params_def snd_pcm_writei_def
  snd_pcm_recover_def snd_pcm_drain_def snd_pcm_close_def snd_ctl_open_def snd_ctl_close_def
  snd_ctl_elem_id_malloc_def snd_ctl_elem_id_set_interface_def snd_ctl_elem_id_set_numid_def
  snd_ctl_elem_list_def snd_ctl_elem_list_get_count_def snd_ctl_elem_list_alloc_space_def
  snd_ctl_elem_list_free_space_def snd_ctl_elem_list_get_name_def
  snd_ctl_elem_list_get_numid_def snd_ctl_convert_from_dB_def snd_ctl_elem_write_def
  AAC_DEC_OK_def

lemmas construction_defs = audio_renderer_alsa_init_def audio_renderer_alsa_init_decoder_def
  audio_renderer_rpi_init_renderer_def open_control_surface_def
  audio_renderer_alsa_destroy_decoder_def zero_renderer_def

lemmas demo_defs = scripted_device_def initial_world_def demo_config_def demo_stream_info_def
  demo_elems_def demo_renderer_def decoder_phase_trace_def pcm_phase_trace_def eld_conf_def

lemma small_numerals:
  "(2::nat) = Suc (Suc 0)" "(3::nat) = Suc 2" "(4::nat) = Suc 3" "(5::nat) = Suc 4"
  "(6::nat) = Suc 5" "(7::nat) = Suc 6"
  by simp_all

lemma construct_running_world:
  "audio_renderer_alsa_init (scripted_device all_succeed demo_elems) (Some 0) None (Some demo_config)
     initial_world = Inr (Some 1, running_world)"
  by (simp add: construction_defs library_defs demo_defs running_world_def Let_def small_numerals)

lemma construct_world_no_elems:
  "audio_renderer_alsa_init (scripted_device all_succeed []) (Some 0) None (Some demo_config)
     initial_world = Inr (Some 1, world_no_elems)"
  by (simp add: construction_defs library_defs demo_defs world_no_elems_def Let_def small_numerals)

lemma destroy_running_world:
  "audio_renderer_alsa_destroy (scripted_device all_succeed demo_elems) (Some 1) running_world =
     Inr destroyed_world"
  by (simp add: audio_renderer_alsa_destroy_def audio_renderer_alsa_flush_def
      audio_renderer_alsa_destroy_decoder_def audio_renderer_rpi_destroy_renderer_def
      library_defs demo_defs running_world_def destroyed_world_def Let_def)

lemma construct_world_without_ctl:
  "audio_renderer_alsa_init (scripted_device ctl_open_fails []) (Some 0) None (Some demo_config)
     initial_world = Inr (Some 1, world_without_ctl)"
  by (simp add: construction_defs library_defs demo_defs world_without_ctl_def Let_def
      small_numerals)

lemma construct_params_failure:
  "audio_renderer_alsa_init (scripted_device set_params_fails demo_elems) (Some 0) None
     (Some demo_config) initial_world = Inr (None, world_after_params_failure)"
  by (simp add: construction_defs library_defs demo_defs world_after_params_failure_def Let_def
      small_numerals)

lemma construct_config_failure:
  "audio_renderer_alsa_init (scripted_device config_raw_fails demo_elems) (Some 0) None
     (Some demo_config) initial_world = Inr (None, world_after_config_failure)"
  by (simp add: construction_defs library_defs demo_defs world_after_config_failure_def Let_def
      small_numerals)

lemma running_world_renderer:
  "heap running_world 1 = Some demo_renderer" "1 < next_id running_world"
  "audio_renderer demo_renderer = Some 3" "pcm_setup running_world 3 = Some playback_params"
  "mHasCtrlVolume running_world"
  by (simp_all add: running_world_def demo_renderer_def)

subsection \<open>The claims on concrete devices\<close>

text \<open>
  C2, at the inputs where the code leaks. A construction during which
  \<open>snd_pcm_set_params\<close> fails returns no handle, closes the decoder and frees the
  structure, but never closes the PCM it has just opened: the PCM handle stays
  allocated. A construction during which \<open>aacDecoder_ConfigRaw\<close> fails returns no
  handle and frees the structure, but never closes the decoder it has just opened.
  Before either call nothing was allocated.
\<close>

theorem failed_construction_leaks_handle:
  "live initial_world = []
   \<and> audio_renderer_alsa_init (scripted_device set_params_fails demo_elems) (Some 0) None
        (Some demo_config) initial_world = Inr (None, world_after_params_failure)
   \<and> live world_after_params_failure = [PcmHandle 3]
   \<and> filter is_release (trace world_after_params_failure) =
        [Call_aacDecoder_Close (Some 2), Call_free (Some 1)]
   \<and> audio_renderer_alsa_init (scripted_device config_raw_fails demo_elems) (Some 0) None
        (Some demo_config) initial_world = Inr (None, world_after_config_failure)
   \<and> live world_after_config_failure = [AacDecoder 2]
   \<and> filter is_release (trace world_after_config_failure) = [Call_free (Some 1)]"
proof -
  have "live initial_world = []"
    by (simp add: initial_world_def)
  moreover have "live world_after_params_failure = [PcmHandle 3]"
      "filter is_release (trace world_after_params_failure) =
         [Call_aacDecoder_Close (Some 2), Call_free (Some 1)]"
    by (simp_all add: world_after_params_failure_def decoder_phase_trace_def)
  moreover have "live world_after_config_failure = [AacDecoder 2]"
      "filter is_release (trace world_after_config_failure) = [Call_free (Some 1)]"
    by (simp_all add: world_after_config_failure_def)
  ultimately show ?thesis
    using construct_params_failure construct_config_failure by simp
qed

text \<open>
  C3, at the input where the code differs. On a device that reports an empty control
  element list the loop body never runs, the flag keeps the value \<open>True\<close> set before
  the loop, and a volume call is not a no-op: it asks the device to convert and writes
  an element value, for an element id whose numeric id was never set.
\<close>

theorem empty_element_list_keeps_volume_enabled:
  "audio_renderer_alsa_init (scripted_device all_succeed []) (Some 0) None (Some demo_config)
     initial_world = Inr (Some 1, world_no_elems)
   \<and> mHasCtrlVolume world_no_elems
   \<and> audio_renderer_alsa_set_volume (scripted_device all_succeed []) (Some 1) (Finite (- 20))
        world_no_elems =
      Inr (world_no_elems
            \<lparr>trace := trace world_no_elems @
               [Call_snd_ctl_convert_from_dB (Some 4)
                  (Some \<lparr>numid = 0, iface = SND_CTL_ELEM_IFACE_MIXER\<rparr>) (- 4000) 0,
                Call_snd_ctl_elem_write (Some 4)
                  \<lparr>value_id = Some \<lparr>numid = 0, iface = SND_CTL_ELEM_IFACE_MIXER\<rparr>,
                   value_integer = (\<lambda>_. 0)(0 := 60, 1 := 60)\<rparr>]\<rparr>)"
proof -
  have "mHasCtrlVolume world_no_elems"
    by (simp add: world_no_elems_def)
  moreover have "audio_renderer_alsa_set_volume (scripted_device all_succeed []) (Some 1)
        (Finite (- 20)) world_no_elems =
      Inr (world_no_elems
            \<lparr>trace := trace world_no_elems @
               [Call_snd_ctl_convert_from_dB (Some 4)
                  (Some \<lparr>numid = 0, iface = SND_CTL_ELEM_IFACE_MIXER\<rparr>) (- 4000) 0,
                Call_snd_ctl_elem_write (Some 4)
                  \<lparr>value_id = Some \<lparr>numid = 0, iface = SND_CTL_ELEM_IFACE_MIXER\<rparr>,
                   value_integer = (\<lambda>_. 0)(0 := 60, 1 := 60)\<rparr>]\<rparr>)"
    by (simp add: audio_renderer_alsa_set_volume_def deref_def long_of_float_def long_mult_def
        in_long_def trunc_toward_zero_def elem_id_at_def snd_ctl_elem_value_set_id_def
        snd_ctl_elem_value_set_integer_def library_defs scripted_device_def demo_renderer_def
        world_no_elems_def Let_def)
  ultimately show ?thesis
    using construct_world_no_elems by simp
qed

text \<open>
  C6 as stated fails: on a device whose \<open>snd_ctl_open\<close> returns \<open>-2\<close>, at the call
  and when the macro makes the call again, the construction returns the handle 1, and
  the structure, the decoder and the PCM are still allocated.
\<close>

theorem control_open_failure_counterexample:
  "ret (scripted_device ctl_open_fails [])
     (decoder_phase_trace @ pcm_phase_trace @ [Call_snd_ctl_open ''default'' 0]) = - 2
   \<and> ret (scripted_device ctl_open_fails [])
       (decoder_phase_trace @ pcm_phase_trace @
        [Call_snd_ctl_open ''default'' 0, Call_snd_ctl_open ''default'' 0]) = - 2
   \<and> audio_renderer_alsa_init (scripted_device ctl_open_fails []) (Some 0) None
        (Some demo_config) initial_world = Inr (Some 1, world_without_ctl)
   \<and> live world_without_ctl = [Mem 4, PcmHandle 3, AacDecoder 2, Mem 1]"
proof -
  have "ret (scripted_device ctl_open_fails [])
     (decoder_phase_trace @ pcm_phase_trace @ [Call_snd_ctl_open ''default'' 0]) = - 2"
    by (simp add: scripted_device_def)
  moreover have "ret (scripted_device ctl_open_fails [])
       (decoder_phase_trace @ pcm_phase_trace @
        [Call_snd_ctl_open ''default'' 0, Call_snd_ctl_open ''default'' 0]) = - 2"
    by (simp add: scripted_device_def)
  moreover have "live world_without_ctl = [Mem 4, PcmHandle 3, AacDecoder 2, Mem 1]"
    by (simp add: world_without_ctl_def)
  ultimately show ?thesis
    using construct_world_without_ctl by simp
qed

text \<open>
  C8 as stated fails: the second destroy of the handle of \<open>running_world\<close> is a
  fault, not a return with the world unchanged.
\<close>

theorem destroy_twice_counterexample:
  "audio_renderer_alsa_destroy (scripted_device all_succeed demo_elems) (Some 1) running_world =
     Inr destroyed_world
   \<and> audio_renderer_alsa_destroy (scripted_device all_succeed demo_elems) (Some 1)
        destroyed_world = Inl InvalidPointer
   \<and> audio_renderer_alsa_destroy (scripted_device all_succeed demo_elems) (Some 1)
        destroyed_world \<noteq> Inr destroyed_world"
proof -
  have "audio_renderer_alsa_destroy (scripted_device all_succeed demo_elems) (Some 1)
          destroyed_world = Inl InvalidPointer"
    by (simp add: audio_renderer_alsa_destroy_def destroyed_world_def)
  then show ?thesis
    using destroy_running_world by simp
qed

subsection \<open>Instances of the theorems\<close>

theorem render_buffer_one_write_witness:
  "heap running_world 1 = Some demo_renderer
   \<and> pcm_setup running_world 3 = Some playback_params
   \<and> decoder_errors (Call_aacDecoder_Fill (Some 2) demo_data 4 4) \<noteq> AAC_DEC_OK
   \<and> (\<exists>w' buf.
         audio_renderer_alsa_render_buffer (scripted_device decoder_errors demo_elems) (Some 1)
           () demo_data 4 () running_world = Inr w'
         \<and> filter is_snd_pcm_writei (new_events running_world w') =
             [Call_snd_pcm_writei (Some 3) buf 480])"
proof -
  have "(4::int) \<noteq> 0"
    by simp
  from render_buffer_one_write [OF this running_world_renderer(1,3,4),
      of "scripted_device decoder_errors demo_elems" "()" demo_data "()"]
  show ?thesis
    using running_world_renderer by (auto simp: AAC_DEC_OK_def)
qed

theorem render_buffer_recovery_witness:
  "underrun (Call_snd_pcm_writei (Some 3) (Some 7) 480) < 0
   \<and> underrun (Call_snd_pcm_recover (Some 3) (- 32) 0) < 0
   \<and> (\<exists>w'. audio_renderer_alsa_render_buffer (scripted_device underrun demo_elems) (Some 1)
              () demo_data 4 () running_world = Inr w'
         \<and> filter is_snd_pcm_recover (new_events running_world w') =
             [Call_snd_pcm_recover (Some 3) (- 32) 0]
         \<and> heap w' 1 = Some demo_renderer \<and> live w' = live running_world)"
proof -
  let ?E = "scripted_device underrun demo_elems"
  let ?d = "decode_stage ?E demo_renderer demo_data 4 running_world"
  let ?wr = "snd_pcm_writei ?E (audio_renderer demo_renderer) (fst ?d)
               (snd_pcm_bytes_to_frames (snd ?d) (audio_renderer demo_renderer) (4 * 480)) (snd ?d)"
  let ?rc = "snd_pcm_recover ?E (audio_renderer demo_renderer) (int_of_long (- 32)) 0 (snd ?wr)"
  have a: "(4::int) \<noteq> 0"
    by simp
  have b: "?d = (fst ?d, snd ?d)"
    by simp
  have c: "?wr = (- 32, snd ?wr)"
    by (simp add: prod_eq_iff scripted_device_def)
  have d: "(- 32 :: int) < 0"
    by simp
  have e: "?rc = (- 5, snd ?rc)"
    by (simp add: prod_eq_iff scripted_device_def)
  from render_buffer_recovery [OF a running_world_renderer(1,2) b c d e, of "()" "()"]
  show ?thesis
    using running_world_renderer by (auto simp: int_of_long_def)
qed

theorem control_open_not_fatal_witness:
  "audio_renderer_alsa_init (scripted_device ctl_open_fails []) (Some 0) None (Some demo_config)
     initial_world = Inr (Some 1, world_without_ctl)
   \<and> filter is_snd_ctl_open (new_events initial_world world_without_ctl) =
       [Call_snd_ctl_open ''default'' 0, Call_snd_ctl_open ''default'' 0]
   \<and> heap world_without_ctl 1 = Some (demo_renderer\<lparr>ctl := None, ctl_elem_id := Some 4\<rparr>)
   \<and> filter is_release (new_events initial_world world_without_ctl) = []"
proof -
  have n: "filter is_snd_ctl_open (new_events initial_world world_without_ctl) =
      [Call_snd_ctl_open ''default'' 0, Call_snd_ctl_open ''default'' 0]"
    by (simp add: new_events_def initial_world_def world_without_ctl_def
        decoder_phase_trace_def pcm_phase_trace_def)
  then have "filter is_snd_ctl_open (new_events initial_world world_without_ctl) \<noteq> []"
    by simp
  from control_open_not_fatal [OF construct_world_without_ctl this]
  show ?thesis
    using n construct_world_without_ctl by (auto simp: world_without_ctl_def)
qed

theorem set_volume_writes_both_channels_witness:
  "mHasCtrlVolume running_world
   \<and> heap running_world 1 = Some demo_renderer
   \<and> trunc_toward_zero (- 20.5) = - 20
   \<and> in_long (scripted_device volume_calls_fail demo_elems) (- 20)
   \<and> in_long (scripted_device volume_calls_fail demo_elems) (- 4000)
   \<and> audio_renderer_alsa_set_volume (scripted_device volume_calls_fail demo_elems) (Some 1)
        (Finite (- 20.5)) running_world =
      Inr (running_world
            \<lparr>trace := trace running_world @
               [Call_snd_ctl_convert_from_dB (Some 4)
                  (Some \<lparr>numid = 7, iface = SND_CTL_ELEM_IFACE_MIXER\<rparr>) (- 4000) 0,
                Call_snd_ctl_convert_from_dB (Some 4)
                  (Some \<lparr>numid = 7, iface = SND_CTL_ELEM_IFACE_MIXER\<rparr>) (- 4000) 0,
                Call_logger_log (Some 0) LOGGER_ERR (ArgStr ''%s: %s'')
                  [ArgStr ''Convert'', ArgStrerror (- 22)],
                Call_snd_ctl_elem_write (Some 4)
                  \<lparr>value_id = Some \<lparr>numid = 7, iface = SND_CTL_ELEM_IFACE_MIXER\<rparr>,
                   value_integer = (\<lambda>_. 0)(0 := 60, 1 := 60)\<rparr>,
                Call_snd_ctl_elem_write (Some 4)
                  \<lparr>value_id = Some \<lparr>numid = 7, iface = SND_CTL_ELEM_IFACE_MIXER\<rparr>,
                   value_integer = (\<lambda>_. 0)(0 := 60, 1 := 60)\<rparr>,
                Call_logger_log (Some 0) LOGGER_ERR (ArgStr ''%s: %s'')
                  [ArgStr ''Set volume'', ArgStrerror (- 1)]]\<rparr>)"
proof -
  let ?E = "scripted_device volume_calls_fail demo_elems"
  have t: "trunc_toward_zero (- 20.5) = - 20"
    by (simp add: trunc_toward_zero_def)
  have a: "in_long ?E (trunc_toward_zero (- 20.5))"
      "in_long ?E (trunc_toward_zero (- 20.5) * 200)"
    using t by (simp_all add: in_long_def scripted_device_def)
  from set_volume_writes_both_channels [OF running_world_renderer(5,1) a]
  obtain w' where w': "audio_renderer_alsa_set_volume ?E (Some 1) (Finite (- 20.5)) running_world
        = Inr w'"
    and tr: "trace w' = trace running_world @
               [Call_snd_ctl_convert_from_dB (Some 4)
                  (Some \<lparr>numid = 7, iface = SND_CTL_ELEM_IFACE_MIXER\<rparr>) (- 4000) 0,
                Call_snd_ctl_convert_from_dB (Some 4)
                  (Some \<lparr>numid = 7, iface = SND_CTL_ELEM_IFACE_MIXER\<rparr>) (- 4000) 0,
                Call_logger_log (Some 0) LOGGER_ERR (ArgStr ''%s: %s'')
                  [ArgStr ''Convert'', ArgStrerror (- 22)],
                Call_snd_ctl_elem_write (Some 4)
                  \<lparr>value_id = Some \<lparr>numid = 7, iface = SND_CTL_ELEM_IFACE_MIXER\<rparr>,
                   value_integer = (\<lambda>_. 0)(0 := 60, 1 := 60)\<rparr>,
                Call_snd_ctl_elem_write (Some 4)
                  \<lparr>value_id = Some \<lparr>numid = 7, iface = SND_CTL_ELEM_IFACE_MIXER\<rparr>,
                   value_integer = (\<lambda>_. 0)(0 := 60, 1 := 60)\<rparr>,
                Call_logger_log (Some 0) LOGGER_ERR (ArgStr ''%s: %s'')
                  [ArgStr ''Set volume'', ArgStrerror (- 1)]]"
    and rest: "heap w' = heap running_world" "elem_ids w' = elem_ids running_world"
      "pcm_setup w' = pcm_setup running_world" "live w' = live running_world"
      "next_id w' = next_id running_world" "mHasCtrlVolume w' = mHasCtrlVolume running_world"
    using t by (auto simp: Let_def scripted_device_def elem_id_at_def demo_renderer_def
        running_world_def)
  have "w' = running_world\<lparr>trace := trace w'\<rparr>"
    using rest by simp
  then show ?thesis
    using w' tr a t running_world_renderer(1,5) by simp
qed

theorem set_volume_truncates_witness:
  "mHasCtrlVolume running_world
   \<and> heap running_world 1 = Some demo_renderer
   \<and> trunc_toward_zero (- 20.5) = - 20
   \<and> truncf (Finite (- 20.5)) = Finite (- 20)
   \<and> in_long (scripted_device all_succeed demo_elems) (- 20)
   \<and> in_long (scripted_device all_succeed demo_elems) (- 4000)
   \<and> audio_renderer_alsa_set_volume (scripted_device all_succeed demo_elems) (Some 1)
        (Finite (- 20.5)) running_world =
      audio_renderer_alsa_set_volume (scripted_device all_succeed demo_elems) (Some 1)
        (Finite (- 20)) running_world
   \<and> (\<exists>w'. audio_renderer_alsa_set_volume (scripted_device all_succeed demo_elems) (Some 1)
               (Finite (- 20.5)) running_world = Inr w'
          \<and> set (filter is_snd_ctl_convert_from_dB (new_events running_world w')) =
              {Call_snd_ctl_convert_from_dB (Some 4)
                 (Some \<lparr>numid = 7, iface = SND_CTL_ELEM_IFACE_MIXER\<rparr>) (- 4000) 0}
          \<and> set (filter is_snd_ctl_elem_write (new_events running_world w')) =
              {Call_snd_ctl_elem_write (Some 4)
                 \<lparr>value_id = Some \<lparr>numid = 7, iface = SND_CTL_ELEM_IFACE_MIXER\<rparr>,
                  value_integer = (\<lambda>_. 0)(0 := 60, 1 := 60)\<rparr>})"
proof -
  let ?E = "scripted_device all_succeed demo_elems"
  have t: "trunc_toward_zero (- 20.5) = - 20"
    by (simp add: trunc_toward_zero_def)
  have f: "truncf (Finite (- 20.5)) = Finite (- 20)"
    using t by (simp add: truncf_def)
  have a: "in_long ?E (- 20)" "in_long ?E (- 4000)"
    by (simp_all add: in_long_def scripted_device_def)
  have e: "elem_id_at running_world (ctl_elem_id demo_renderer) =
      Some \<lparr>numid = 7, iface = SND_CTL_ELEM_IFACE_MIXER\<rparr>" "ctl demo_renderer = Some 4"
    by (simp_all add: elem_id_at_def demo_renderer_def running_world_def)
  have r: "ret ?E (trace running_world @
      [Call_snd_ctl_convert_from_dB (Some 4)
         (Some \<lparr>numid = 7, iface = SND_CTL_ELEM_IFACE_MIXER\<rparr>) (- 4000) 0]) = 0"
    "raw_out ?E (trace running_world @
      [Call_snd_ctl_convert_from_dB (Some 4)
         (Some \<lparr>numid = 7, iface = SND_CTL_ELEM_IFACE_MIXER\<rparr>) (- 4000) 0]) = 60"
    by (simp_all add: scripted_device_def)
  show ?thesis
    using set_volume_truncates
      [of ?E "Some 1" "Finite (- 20.5)" running_world 1 demo_renderer "- 20.5"]
      running_world_renderer(1,5) t f a e r
    by (simp add: Let_def) blast
qed

theorem destroy_null_noop_twice_faults_witness:
  "audio_renderer_alsa_destroy (scripted_device teardown_fails demo_elems) None running_world =
     Inr running_world
   \<and> heap running_world 1 = Some demo_renderer
   \<and> distinct (live running_world)
   \<and> (\<exists>w1. audio_renderer_alsa_destroy (scripted_device teardown_fails demo_elems) (Some 1)
               running_world = Inr w1
          \<and> heap w1 = Map.empty
          \<and> new_events running_world w1 =
              [Call_aacDecoder_Close (Some 2),
               Call_snd_pcm_drain (Some 3), Call_snd_pcm_drain (Some 3),
               Call_logger_log (Some 0) LOGGER_ERR (ArgStr ''%s: %s'')
                 [ArgStr ''ALSA PCM drain'', ArgStrerror (- 5)],
               Call_snd_pcm_close (Some 3), Call_snd_pcm_close (Some 3),
               Call_logger_log (Some 0) LOGGER_ERR (ArgStr ''%s: %s'')
                 [ArgStr ''ALSA PCM close'', ArgStrerror (- 9)],
               Call_snd_ctl_close (Some 4), Call_free (Some 1)]
          \<and> set (live w1) = {Mem 5}
          \<and> audio_renderer_alsa_destroy (scripted_device all_succeed demo_elems) (Some 1) w1 =
              Inl InvalidPointer)"
proof -
  let ?E = "scripted_device teardown_fails demo_elems"
  have d: "distinct (live running_world)"
    by (simp add: running_world_def)
  have l: "set (live running_world) -
      (AacDecoder ` set_option (audio_decoder demo_renderer)
       \<union> PcmHandle ` set_option (audio_renderer demo_renderer)
       \<union> CtlHandle ` set_option (ctl demo_renderer) \<union> {Mem 1}) = {Mem 5}"
    by (auto simp: running_world_def demo_renderer_def)
  have h: "(heap running_world)(1 := None) = Map.empty"
    by (simp add: running_world_def)
  show ?thesis
    using destroy_null_noop_twice_faults
      [of ?E running_world 1 demo_renderer "scripted_device all_succeed demo_elems"]
      running_world_renderer(1) d l h
    by (simp add: Let_def CHK_ALSA_ERRNO_events_def scripted_device_def demo_renderer_def)
qed

end
